theory Spec2Isabelle
  imports Main "HOL-Library.Sublist"
begin

section \<open>The CentOS provisioner of libmachine/provision\<close>

text \<open>
  The repository holds two revisions of the CentOS provisioner, in two files of the
  package \<^verbatim>\<open>provision\<close> that declare the same names: the file
  \<^verbatim>\<open>libmachine/provision/centos.go\<close>, and a second file, called the template revision
  below, that renders the engine configuration with \<^verbatim>\<open>text/template\<close>. The definitions
  follow the template revision and keep its names; a function that \<^verbatim>\<open>centos.go\<close> writes
  differently is embedded a second time under the suffix \<open>_centos_go\<close>. A function that
  reads the same in both files is embedded once.

  The methods \<^verbatim>\<open>Service\<close> and \<^verbatim>\<open>Hostname\<close> are not embedded: no property below is
  about them, and \<^verbatim>\<open>Service\<close> needs \<^verbatim>\<open>ServiceAction.String\<close>, which is declared
  outside the two files.
\<close>

subsection \<open>Data\<close>

text \<open>
  \<^verbatim>\<open>drivers.Driver\<close> is an interface declared outside the two files. The provisioner
  calls two of its methods, \<^verbatim>\<open>DriverName()\<close> and \<^verbatim>\<open>GetMachineName()\<close>; a driver is
  the record of what they return.
\<close>

record Driver =
  DriverName :: string
  GetMachineName :: string

text \<open>
  Modelled from the spec: the declaration of \<^verbatim>\<open>OsRelease\<close> is outside the two files,
  which read its field \<^verbatim>\<open>Id\<close> only; section 3 of the spec gives it the fields id,
  version and like. (The field is named \<open>OsRelease_Id\<close> here: \<open>Id\<close> is the identity
  relation of HOL.)
\<close>

record OsRelease =
  OsRelease_Id :: string
  Version :: string
  IdLike :: string

text \<open>
  \<^verbatim>\<open>auth.AuthOptions\<close> and \<^verbatim>\<open>engine.EngineOptions\<close> are declared outside the two
  files; the records hold the fields that the configuration template reads.
\<close>

record AuthOptions =
  CaCertRemotePath :: string
  ServerCertRemotePath :: string
  ServerKeyRemotePath :: string

record EngineOptions =
  StorageDriver :: string
  Labels :: "string list"
  InsecureRegistry :: "string list"
  RegistryMirror :: "string list"
  ArbitraryFlags :: "string list"

text \<open>
  The struct \<^verbatim>\<open>CentosProvisioner\<close>. \<^verbatim>\<open>OsReleaseInfo\<close> is a pointer: \<open>None\<close> is nil.
  No field of \<^verbatim>\<open>swarm.SwarmOptions\<close> is read in the two files, so its type is the
  parameter \<open>'s\<close>. The struct of \<^verbatim>\<open>centos.go\<close> has no \<^verbatim>\<open>AuthOptions\<close> and no
  \<^verbatim>\<open>EngineOptions\<close> field, and its functions never touch them.
\<close>

record 's CentosProvisioner =
  packages :: "string list"
  OsReleaseInfo :: "OsRelease option"
  Driver :: Driver
  AuthOptions :: AuthOptions
  EngineOptions :: EngineOptions
  SwarmOptions :: 's

text \<open>
  \<^verbatim>\<open>pkgaction.PackageAction\<close> is declared outside the two files. The template revision
  names three of its values, \<^verbatim>\<open>Install\<close>, \<^verbatim>\<open>Remove\<close> and \<^verbatim>\<open>Upgrade\<close>, and section
  3 of the spec makes it the closed enumeration of these three. The model has no other
  value of the type.
\<close>

datatype PackageAction = Install | Remove | Upgrade

text \<open>
  Go's \<^verbatim>\<open>error\<close> values: what the command channel or an external routine reports,
  what the readiness poller reports when it gives up, and what the template library
  reports. A nil error is \<open>None\<close>.
\<close>

datatype error = RemoteError string | ReadinessTimeoutError | TemplateError string

text \<open>A nil pointer dereference panics; a panic is not an \<^verbatim>\<open>error\<close> value.\<close>

datatype panic = NilPointerDereference

subsection \<open>Construction and the pure methods\<close>

text \<open>
  \<^verbatim>\<open>NewCentosProvisioner\<close> sets \<^verbatim>\<open>packages\<close> and \<^verbatim>\<open>Driver\<close>; Go gives every other
  field its zero value: a nil pointer, empty strings, nil slices. The zero value of
  \<^verbatim>\<open>swarm.SwarmOptions\<close> is the parameter \<open>z\<close>.
\<close>

definition NewCentosProvisioner :: "'s \<Rightarrow> Driver \<Rightarrow> 's CentosProvisioner" where
  "NewCentosProvisioner z d =
     \<lparr> packages = [''curl''],
       OsReleaseInfo = None,
       Driver = d,
       AuthOptions = \<lparr> CaCertRemotePath = [], ServerCertRemotePath = [],
                       ServerKeyRemotePath = [] \<rparr>,
       EngineOptions = \<lparr> StorageDriver = [], Labels = [], InsecureRegistry = [],
                         RegistryMirror = [], ArbitraryFlags = [] \<rparr>,
       SwarmOptions = z \<rparr>"

definition GetDockerOptionsDir :: "'s CentosProvisioner \<Rightarrow> string" where
  "GetDockerOptionsDir p = ''/etc/default/docker''"

text \<open>
  \<^verbatim>\<open>return provisioner.OsReleaseInfo.Id == "centos"\<close>: the pointer is dereferenced
  without a nil check.
\<close>

definition CompatibleWithHost :: "'s CentosProvisioner \<Rightarrow> panic + bool" where
  "CompatibleWithHost p =
     (case OsReleaseInfo p of
        None \<Rightarrow> Inl NilPointerDereference
      | Some info \<Rightarrow> Inr (OsRelease_Id info = ''centos''))"

definition SetOsReleaseInfo ::
  "OsRelease option \<Rightarrow> 's CentosProvisioner \<Rightarrow> 's CentosProvisioner" where
  "SetOsReleaseInfo info p = p\<lparr>OsReleaseInfo := info\<rparr>"

definition GetAuthOptions :: "'s CentosProvisioner \<Rightarrow> AuthOptions" where
  "GetAuthOptions p = AuthOptions p"

definition GetDriver :: "'s CentosProvisioner \<Rightarrow> Driver" where
  "GetDriver p = Driver p"

subsection \<open>The command channel\<close>

text \<open>
  Everything the provisioner does to the host goes through
  \<^verbatim>\<open>drivers.RunSSHCommandFromDriver\<close> or through a routine of the package that is
  declared outside the two files (\<^verbatim>\<open>installDockerGeneric\<close>, \<^verbatim>\<open>makeDockerOptionsDir\<close>,
  \<^verbatim>\<open>ConfigureAuth\<close>, \<^verbatim>\<open>configureSwarm\<close>). Each such call is a \<open>call\<close>. The host is a
  parameter: a function from the calls issued so far and the next call to that call's
  outcome. The machine state is the provisioner and the list of calls issued, oldest
  first. An external routine is opaque: the model observes that it was called and
  whether it failed. Logging is not modelled.
\<close>

datatype call =
    Call_RunSSHCommandFromDriver Driver string
  | Call_installDockerGeneric
  | Call_makeDockerOptionsDir
  | Call_ConfigureAuth
  | Call_configureSwarm

type_synonym host = "call list \<Rightarrow> call \<Rightarrow> error option"

record 's machine =
  provisioner :: "'s CentosProvisioner"
  issued :: "call list"

definition perform :: "host \<Rightarrow> call \<Rightarrow> 's machine \<Rightarrow> error option \<times> 's machine" where
  "perform h c m = (h (issued m) c, m\<lparr>issued := issued m @ [c]\<rparr>)"

text \<open>
  \<^verbatim>\<open>SSHCommand\<close> returns \<^verbatim>\<open>(ssh.Output, error)\<close>; every caller below discards the
  output, so the model returns the error alone.
\<close>

definition SSHCommand :: "host \<Rightarrow> string \<Rightarrow> 's machine \<Rightarrow> error option \<times> 's machine" where
  "SSHCommand h args m =
     perform h (Call_RunSSHCommandFromDriver (Driver (provisioner m)) args) m"

definition installDockerGeneric :: "host \<Rightarrow> 's machine \<Rightarrow> error option \<times> 's machine" where
  "installDockerGeneric h m = perform h Call_installDockerGeneric m"

definition makeDockerOptionsDir :: "host \<Rightarrow> 's machine \<Rightarrow> error option \<times> 's machine" where
  "makeDockerOptionsDir h m = perform h Call_makeDockerOptionsDir m"

definition ConfigureAuth :: "host \<Rightarrow> 's machine \<Rightarrow> error option \<times> 's machine" where
  "ConfigureAuth h m = perform h Call_ConfigureAuth m"

definition configureSwarm :: "host \<Rightarrow> 's \<Rightarrow> 's machine \<Rightarrow> error option \<times> 's machine" where
  "configureSwarm h swarmOptions m = perform h Call_configureSwarm m"

subsection \<open>Packages\<close>

text \<open>
  \<^verbatim>\<open>Package\<close> of the template revision: the switch has a case for each of the three
  actions.
\<close>

definition Package ::
  "host \<Rightarrow> string \<Rightarrow> PackageAction \<Rightarrow> 's machine \<Rightarrow> error option \<times> 's machine" where
  "Package h name action m =
     (let packageAction =
            (case action of
               Install \<Rightarrow> ''install''
             | Remove \<Rightarrow> ''remove''
             | Upgrade \<Rightarrow> ''upgrade'');
          command = ''sudo -E yum -y '' @ packageAction @ '' '' @ name
      in case SSHCommand h command m of
           (Some err, m') \<Rightarrow> (Some err, m')
         | (None, m') \<Rightarrow> (None, m'))"

text \<open>
  \<^verbatim>\<open>Package\<close> of \<^verbatim>\<open>centos.go\<close>: the switch has no case for \<^verbatim>\<open>Upgrade\<close> and no
  default, so \<^verbatim>\<open>packageAction\<close> keeps the zero value of its declaration, the empty
  string.
\<close>

definition Package_centos_go ::
  "host \<Rightarrow> string \<Rightarrow> PackageAction \<Rightarrow> 's machine \<Rightarrow> error option \<times> 's machine" where
  "Package_centos_go h name action m =
     (let packageAction =
            (case action of
               Install \<Rightarrow> ''install''
             | Remove \<Rightarrow> ''remove''
             | Upgrade \<Rightarrow> []);
          command = ''sudo -E yum -y '' @ packageAction @ '' '' @ name
      in case SSHCommand h command m of
           (Some err, m') \<Rightarrow> (Some err, m')
         | (None, m') \<Rightarrow> (None, m'))"

subsection \<open>Host name\<close>

text \<open>
  \<^verbatim>\<open>fmt.Sprintf\<close> with \<^verbatim>\<open>%q\<close> is \<^verbatim>\<open>strconv.Quote\<close>: the string in double quotes, a
  double quote and a backslash escaped by a backslash, the control characters as
  \<^verbatim>\<open>\a \b \f \n \r \t \v\<close> or as \<^verbatim>\<open>\x\<close> and two lower-case hexadecimal digits. The model
  copies a byte from 0x80 on as it is, which is what Go does inside the UTF-8 encoding
  of a printable rune; Go's escapes for invalid UTF-8 and for unprintable runes beyond
  ASCII are not modelled.
\<close>

definition backslash :: string where
  "backslash = [CHR 0x5C]"

definition lowerhex :: "nat \<Rightarrow> char" where
  "lowerhex n = ''0123456789abcdef'' ! (n mod 16)"

definition Quote_byte :: "char \<Rightarrow> string" where
  "Quote_byte c =
     (let n = (of_char c :: nat) in
      if c = CHR 0x22 \<or> c = CHR 0x5C then backslash @ [c]
      else if 0x20 \<le> n \<and> n < 0x7F then [c]
      else if n = 0x07 then backslash @ ''a''
      else if n = 0x08 then backslash @ ''b''
      else if n = 0x0C then backslash @ ''f''
      else if n = 0x0A then backslash @ ''n''
      else if n = 0x0D then backslash @ ''r''
      else if n = 0x09 then backslash @ ''t''
      else if n = 0x0B then backslash @ ''v''
      else if n < 0x20 \<or> n = 0x7F then backslash @ ''x'' @ [lowerhex (n div 16), lowerhex n]
      else [c])"

definition Quote :: "string \<Rightarrow> string" where
  "Quote s = [CHR 0x22] @ concat (map Quote_byte s) @ [CHR 0x22]"

definition SetHostname :: "host \<Rightarrow> string \<Rightarrow> 's machine \<Rightarrow> error option \<times> 's machine" where
  "SetHostname h hostname m =
     (case SSHCommand h
             (''sudo hostname '' @ hostname @ '' && echo '' @ Quote hostname
                @ '' | sudo tee /etc/hostname'') m of
        (Some err, m') \<Rightarrow> (Some err, m')
      | (None, m') \<Rightarrow>
          (case SSHCommand h
                  (''sudo sed -i '/^127.0.0.1/ s/$/ '' @ hostname @ ''/' /etc/hosts'') m' of
             (Some err, m'') \<Rightarrow> (Some err, m'')
           | (None, m'') \<Rightarrow> (None, m'')))"

subsection \<open>Readiness\<close>

definition dockerDaemonResponding :: "host \<Rightarrow> 's machine \<Rightarrow> bool \<times> 's machine" where
  "dockerDaemonResponding h m =
     (case SSHCommand h ''sudo docker version'' m of
        (Some err, m') \<Rightarrow> (False, m')
      | (None, m') \<Rightarrow> (True, m'))"

text \<open>
  Modelled from the spec: \<^verbatim>\<open>utils.WaitFor\<close> is declared outside the two files. Section
  4.5 of the spec: the poller invokes the probe repeatedly, returns success as soon as
  the probe returns true, and fails with \<^verbatim>\<open>ReadinessTimeoutError\<close> once its bound is
  exceeded. The spec's bound is a duration; real time is not modelled, and the bound
  here is the number of probes \<open>maxAttempts\<close>.
\<close>

fun WaitFor ::
  "nat \<Rightarrow> ('s machine \<Rightarrow> bool \<times> 's machine) \<Rightarrow> 's machine \<Rightarrow> error option \<times> 's machine" where
  "WaitFor 0 probe m = (Some ReadinessTimeoutError, m)"
| "WaitFor (Suc maxAttempts) probe m =
     (case probe m of
        (True, m') \<Rightarrow> (None, m')
      | (False, m') \<Rightarrow> WaitFor maxAttempts probe m')"

subsection \<open>The bootstrap sequence\<close>

definition sudoers_command :: string where
  "sudoers_command =
     ''-t sed -i 's/^Defaults.*requiretty$/#'' @ backslash @ '' commented'' @ backslash
       @ '' out'' @ backslash @ '' by'' @ backslash @ '' docker'' @ backslash
       @ '' machine'' @ backslash @ ''n#Defaults'' @ backslash @ '' '' @ backslash
       @ '' '' @ backslash @ '' '' @ backslash @ '' requiretty/g' /etc/sudoers''"

definition firewalld_command :: string where
  \<open>firewalld_command =
     ''printf '<?xml version="1.0" encoding="utf-8"?>\<newline><service>\<newline>''
       @ ''  <short>Docker Daemon</short>\<newline>''
       @ ''  <port protocol="tcp" port="2376"/>\<newline></service>\<newline>' > ''
       @ ''/etc/firewalld/services/docker.xml && sed -i 's/<'' @ backslash
       @ ''/zone>/  <service name='' @ backslash @ ''"docker'' @ backslash @ ''"''
       @ backslash @ ''/>'' @ backslash @ ''n<'' @ backslash
       @ ''/zone>/g' /etc/firewalld/zones/public.xml && service firewalld restart''\<close>

text \<open>
  The loop \<^verbatim>\<open>for _, pkg := range provisioner.packages\<close> of \<^verbatim>\<open>Provision\<close>, with the
  \<^verbatim>\<open>Package\<close> method of the revision as a parameter.
\<close>

fun install_packages ::
  "(string \<Rightarrow> PackageAction \<Rightarrow> 's machine \<Rightarrow> error option \<times> 's machine) \<Rightarrow> string list
     \<Rightarrow> 's machine \<Rightarrow> error option \<times> 's machine" where
  "install_packages pkgf [] m = (None, m)"
| "install_packages pkgf (pkg # pkgs) m =
     (case pkgf pkg Install m of
        (Some err, m') \<Rightarrow> (Some err, m')
      | (None, m') \<Rightarrow> install_packages pkgf pkgs m')"

text \<open>
  \<^verbatim>\<open>Provision\<close> of the template revision. \<^verbatim>\<open>setRemoteAuthOptions\<close> is declared outside
  the two files and is a parameter, as is the bound of the poller.
\<close>

definition Provision ::
  "host \<Rightarrow> nat \<Rightarrow> ('s CentosProvisioner \<Rightarrow> AuthOptions) \<Rightarrow> 's \<Rightarrow> AuthOptions \<Rightarrow> EngineOptions
     \<Rightarrow> 's machine \<Rightarrow> error option \<times> 's machine" where
  "Provision h maxAttempts setRemoteAuthOptions swarmOptions authOptions engineOptions m0 =
     (let m = m0\<lparr>provisioner := (provisioner m0)
                 \<lparr>SwarmOptions := swarmOptions, AuthOptions := authOptions,
                  EngineOptions := engineOptions\<rparr>\<rparr>
      in
      case SSHCommand h sudoers_command m of
        (Some err, m) \<Rightarrow> (Some err, m)
      | (None, m) \<Rightarrow>
      (case SetHostname h (GetMachineName (Driver (provisioner m))) m of
        (Some err, m) \<Rightarrow> (Some err, m)
      | (None, m) \<Rightarrow>
      (case SSHCommand h ''yum -y update'' m of
        (Some err, m) \<Rightarrow> (Some err, m)
      | (None, m) \<Rightarrow>
      (case install_packages (Package h) (packages (provisioner m)) m of
        (Some err, m) \<Rightarrow> (Some err, m)
      | (None, m) \<Rightarrow>
      (case SSHCommand h firewalld_command m of
        (Some err, m) \<Rightarrow> (Some err, m)
      | (None, m) \<Rightarrow>
      (case installDockerGeneric h m of
        (Some err, m) \<Rightarrow> (Some err, m)
      | (None, m) \<Rightarrow>
      (case WaitFor maxAttempts (dockerDaemonResponding h) m of
        (Some err, m) \<Rightarrow> (Some err, m)
      | (None, m) \<Rightarrow>
      (case makeDockerOptionsDir h m of
        (Some err, m) \<Rightarrow> (Some err, m)
      | (None, m) \<Rightarrow>
      (let m = m\<lparr>provisioner := (provisioner m)
                \<lparr>AuthOptions := setRemoteAuthOptions (provisioner m)\<rparr>\<rparr>
      in
      case ConfigureAuth h m of
        (Some err, m) \<Rightarrow> (Some err, m)
      | (None, m) \<Rightarrow>
      (case configureSwarm h swarmOptions m of
        (Some err, m) \<Rightarrow> (Some err, m)
      | (None, m) \<Rightarrow> (None, m)))))))))))"

text \<open>
  \<^verbatim>\<open>Provision\<close> of \<^verbatim>\<open>centos.go\<close>: no field is assigned, there is no
  \<^verbatim>\<open>makeDockerOptionsDir\<close> step, and \<^verbatim>\<open>ConfigureAuth\<close> takes the caller's
  \<^verbatim>\<open>authOptions\<close>.
\<close>

definition Provision_centos_go ::
  "host \<Rightarrow> nat \<Rightarrow> 's \<Rightarrow> AuthOptions \<Rightarrow> 's machine \<Rightarrow> error option \<times> 's machine" where
  "Provision_centos_go h maxAttempts swarmOptions authOptions m =
     (case SSHCommand h sudoers_command m of
        (Some err, m) \<Rightarrow> (Some err, m)
      | (None, m) \<Rightarrow>
      (case SetHostname h (GetMachineName (Driver (provisioner m))) m of
        (Some err, m) \<Rightarrow> (Some err, m)
      | (None, m) \<Rightarrow>
      (case SSHCommand h ''yum -y update'' m of
        (Some err, m) \<Rightarrow> (Some err, m)
      | (None, m) \<Rightarrow>
      (case install_packages (Package_centos_go h) (packages (provisioner m)) m of
        (Some err, m) \<Rightarrow> (Some err, m)
      | (None, m) \<Rightarrow>
      (case SSHCommand h firewalld_command m of
        (Some err, m) \<Rightarrow> (Some err, m)
      | (None, m) \<Rightarrow>
      (case installDockerGeneric h m of
        (Some err, m) \<Rightarrow> (Some err, m)
      | (None, m) \<Rightarrow>
      (case WaitFor maxAttempts (dockerDaemonResponding h) m of
        (Some err, m) \<Rightarrow> (Some err, m)
      | (None, m) \<Rightarrow>
      (case ConfigureAuth h m of
        (Some err, m) \<Rightarrow> (Some err, m)
      | (None, m) \<Rightarrow>
      (case configureSwarm h swarmOptions m of
        (Some err, m) \<Rightarrow> (Some err, m)
      | (None, m) \<Rightarrow> (None, m))))))))))"

subsection \<open>The fragment of text/template that the configuration template uses\<close>

text \<open>
  \<^verbatim>\<open>GenerateDockerOptions\<close> of the template revision parses a constant template and
  executes it on an \<^verbatim>\<open>EngineConfigContext\<close>. The library is Go's; the model covers the
  constructs of that one template: text, the actions \<^verbatim>\<open>{{.}}\<close> and \<^verbatim>\<open>{{.A.B}}\<close>, and
  \<^verbatim>\<open>{{range .A.B}} ... {{end}}\<close>. Any other action is a parse error of the model.

  A value as reflection shows it to the library: an integer, a string, a slice, or a
  struct with its fields by name.
\<close>

datatype tvalue =
    VInt int
  | VString string
  | VSlice "tvalue list"
  | VStruct "(string \<times> tvalue) list"

datatype node =
    TextNode string
  | ActionNode "string list"
  | RangeNode "string list" "node list"

datatype item = ItemText string | ItemAction string

datatype action = ActEnd | ActRange "string list" | ActField "string list"

text \<open>
  The lexer: text up to \<^verbatim>\<open>{{\<close>, then an action up to \<^verbatim>\<open>}}\<close>. \<open>inside\<close> says whether
  an action is open, \<open>acc\<close> holds the characters of the current item, newest first.
  Empty text between two actions gives no item.
\<close>

fun lex :: "bool \<Rightarrow> string \<Rightarrow> string \<Rightarrow> error + item list" where
  "lex inside acc [] =
     (if inside then Inl (TemplateError ''unclosed action'')
      else Inr (if acc = [] then [] else [ItemText (rev acc)]))"
| "lex inside acc [c] = lex inside (c # acc) []"
| "lex inside acc (c # d # cs) =
     (if \<not> inside \<and> c = CHR 0x7B \<and> d = CHR 0x7B then
        (case lex True [] cs of
           Inl err \<Rightarrow> Inl err
         | Inr items \<Rightarrow> Inr ((if acc = [] then [] else [ItemText (rev acc)]) @ items))
      else if inside \<and> c = CHR 0x7D \<and> d = CHR 0x7D then
        (case lex False [] cs of
           Inl err \<Rightarrow> Inl err
         | Inr items \<Rightarrow> Inr (ItemAction (rev acc) # items))
      else lex inside (c # acc) (d # cs))"

definition is_space :: "char \<Rightarrow> bool" where
  "is_space c = (c = CHR 0x20 \<or> c = CHR 0x09)"

definition is_alphanumeric :: "char \<Rightarrow> bool" where
  "is_alphanumeric c =
     (let n = (of_char c :: nat) in
      c = CHR 0x5F \<or> (0x30 \<le> n \<and> n \<le> 0x39) \<or> (0x41 \<le> n \<and> n \<le> 0x5A)
        \<or> (0x61 \<le> n \<and> n \<le> 0x7A))"

definition trim_spaces :: "string \<Rightarrow> string" where
  "trim_spaces s = rev (dropWhile is_space (rev (dropWhile is_space s)))"

text \<open>\<open>split_dots cur s\<close>: the pieces of \<open>s\<close> between its dots; \<open>cur\<close> is the open piece, newest
  character first.\<close>

fun split_dots :: "string \<Rightarrow> string \<Rightarrow> string list" where
  "split_dots cur [] = [rev cur]"
| "split_dots cur (c # cs) =
     (if c = CHR 0x2E then rev cur # split_dots [] cs else split_dots (c # cur) cs)"

text \<open>A field chain: \<^verbatim>\<open>.\<close> is the empty chain, \<^verbatim>\<open>.A.B\<close> is the chain of \<open>A\<close> and \<open>B\<close>.\<close>

definition parse_chain :: "string \<Rightarrow> string list option" where
  "parse_chain s =
     (case s of
        [] \<Rightarrow> None
      | c # rest \<Rightarrow>
          if c \<noteq> CHR 0x2E then None
          else if rest = [] then Some []
          else (let flds = split_dots [] rest in
                if list_all (\<lambda>f. f \<noteq> [] \<and> list_all is_alphanumeric f) flds
                then Some flds else None))"

definition parse_action :: "string \<Rightarrow> action option" where
  "parse_action s =
     (let t = trim_spaces s in
      if t = ''end'' then Some ActEnd
      else if take 6 t = ''range '' then
        map_option ActRange (parse_chain (trim_spaces (drop 6 t)))
      else map_option ActField (parse_chain t))"

text \<open>
  The tree builder: \<open>stack\<close> holds, for every open \<^verbatim>\<open>range\<close>, its chain and the nodes
  that came before it at its level; \<open>acc\<close> holds the nodes of the current level, newest
  first.
\<close>

fun build :: "item list \<Rightarrow> (string list \<times> node list) list \<Rightarrow> node list \<Rightarrow> error + node list" where
  "build [] [] acc = Inr (rev acc)"
| "build [] (open_range # stack) acc = Inl (TemplateError ''unexpected EOF'')"
| "build (ItemText s # items) stack acc = build items stack (TextNode s # acc)"
| "build (ItemAction a # items) stack acc =
     (case parse_action a of
        None \<Rightarrow> Inl (TemplateError (''cannot parse action '' @ a))
      | Some ActEnd \<Rightarrow>
          (case stack of
             [] \<Rightarrow> Inl (TemplateError ''unexpected {{end}}'')
           | (chain, outer) # stack' \<Rightarrow> build items stack' (RangeNode chain (rev acc) # outer))
      | Some (ActRange chain) \<Rightarrow> build items ((chain, acc) # stack) []
      | Some (ActField chain) \<Rightarrow> build items stack (ActionNode chain # acc))"

definition template_Parse :: "string \<Rightarrow> error + node list" where
  "template_Parse text =
     (case lex False [] text of
        Inl err \<Rightarrow> Inl err
      | Inr items \<Rightarrow> build items [] [])"

text \<open>Field access: the receiver must be a struct that has the field.\<close>

fun lookup_field :: "string \<Rightarrow> tvalue \<Rightarrow> error + tvalue" where
  "lookup_field f (VStruct flds) =
     (case map_of flds f of
        None \<Rightarrow> Inl (TemplateError (''can't evaluate field '' @ f))
      | Some v \<Rightarrow> Inr v)"
| "lookup_field f v = Inl (TemplateError (''can't evaluate field '' @ f))"

fun eval_chain :: "string list \<Rightarrow> tvalue \<Rightarrow> error + tvalue" where
  "eval_chain [] v = Inr v"
| "eval_chain (f # fs) v =
     (case lookup_field f v of
        Inl err \<Rightarrow> Inl err
      | Inr v' \<Rightarrow> eval_chain fs v')"

text \<open>An action prints its value as \<^verbatim>\<open>fmt.Fprint\<close> does: an integer in decimal, a string
  as it is, a slice or a struct as its elements between brackets or braces.\<close>

fun format_nat :: "nat \<Rightarrow> string" where
  "format_nat n =
     (if n < 10 then [char_of (48 + n)]
      else format_nat (n div 10) @ [char_of (48 + n mod 10)])"

declare format_nat.simps [simp del]

definition format_int :: "int \<Rightarrow> string" where
  "format_int i = (if i < 0 then ''-'' @ format_nat (nat (- i)) else format_nat (nat i))"

fun join_spaces :: "string list \<Rightarrow> string" where
  "join_spaces [] = []"
| "join_spaces [s] = s"
| "join_spaces (s # t # ss) = s @ '' '' @ join_spaces (t # ss)"

fun print_value :: "tvalue \<Rightarrow> string" where
  "print_value (VInt i) = format_int i"
| "print_value (VString s) = s"
| "print_value (VSlice vs) = ''['' @ join_spaces (map print_value vs) @ '']''"
| "print_value (VStruct flds) =
     ''{'' @ join_spaces (map (\<lambda>fv. print_value (snd fv)) flds) @ ''}''"

text \<open>
  Execution writes to the buffer as it goes, so what was written before an error stays
  in the buffer. \<open>walk\<close> executes one node with the current value of dot,
  \<open>walk_list\<close> a list of nodes, \<open>walk_range\<close> the body of a \<^verbatim>\<open>range\<close> once for each
  element, with dot set to the element.
\<close>

fun walk :: "tvalue \<Rightarrow> node \<Rightarrow> string \<Rightarrow> error option \<times> string"
  and walk_list :: "tvalue \<Rightarrow> node list \<Rightarrow> string \<Rightarrow> error option \<times> string"
  and walk_range :: "node list \<Rightarrow> tvalue list \<Rightarrow> string \<Rightarrow> error option \<times> string" where
  "walk dot (TextNode s) buf = (None, buf @ s)"
| "walk dot (ActionNode chain) buf =
     (case eval_chain chain dot of
        Inl err \<Rightarrow> (Some err, buf)
      | Inr v \<Rightarrow> (None, buf @ print_value v))"
| "walk dot (RangeNode chain body) buf =
     (case eval_chain chain dot of
        Inl err \<Rightarrow> (Some err, buf)
      | Inr (VSlice vs) \<Rightarrow> walk_range body vs buf
      | Inr v \<Rightarrow> (Some (TemplateError ''range can't iterate over value''), buf))"
| "walk_list dot [] buf = (None, buf)"
| "walk_list dot (n # ns) buf =
     (case walk dot n buf of
        (Some err, buf') \<Rightarrow> (Some err, buf')
      | (None, buf') \<Rightarrow> walk_list dot ns buf')"
| "walk_range body [] buf = (None, buf)"
| "walk_range body (v # vs) buf =
     (case walk_list v body buf of
        (Some err, buf') \<Rightarrow> (Some err, buf')
      | (None, buf') \<Rightarrow> walk_range body vs buf')"

definition template_Execute :: "node list \<Rightarrow> tvalue \<Rightarrow> string \<Rightarrow> error option \<times> string" where
  "template_Execute t data buf = walk_list data t buf"

subsection \<open>Rendering the engine configuration\<close>

text \<open>
  \<^verbatim>\<open>EngineConfigContext\<close> and \<^verbatim>\<open>DockerOptions\<close> are declared outside the two files; the
  records hold the fields that \<^verbatim>\<open>GenerateDockerOptions\<close> sets. \<^verbatim>\<open>dockerPort\<close> is a Go
  \<^verbatim>\<open>int\<close>; it is printed and never computed with, so it is an \<open>int\<close> here.
\<close>

record EngineConfigContext =
  DockerPort :: int
  AuthOptions :: AuthOptions
  EngineOptions :: EngineOptions

record DockerOptions =
  EngineOptions :: string
  EngineOptionsPath :: string

definition reflect_AuthOptions :: "AuthOptions \<Rightarrow> tvalue" where
  "reflect_AuthOptions a =
     VStruct [(''CaCertRemotePath'', VString (CaCertRemotePath a)),
              (''ServerCertRemotePath'', VString (ServerCertRemotePath a)),
              (''ServerKeyRemotePath'', VString (ServerKeyRemotePath a))]"

definition reflect_EngineOptions :: "EngineOptions \<Rightarrow> tvalue" where
  "reflect_EngineOptions e =
     VStruct [(''StorageDriver'', VString (StorageDriver e)),
              (''Labels'', VSlice (map VString (Labels e))),
              (''InsecureRegistry'', VSlice (map VString (InsecureRegistry e))),
              (''RegistryMirror'', VSlice (map VString (RegistryMirror e))),
              (''ArbitraryFlags'', VSlice (map VString (ArbitraryFlags e)))]"

definition reflect_EngineConfigContext :: "EngineConfigContext \<Rightarrow> tvalue" where
  "reflect_EngineConfigContext c =
     VStruct [(''DockerPort'', VInt (DockerPort c)),
              (''AuthOptions'', reflect_AuthOptions (EngineConfigContext.AuthOptions c)),
              (''EngineOptions'', reflect_EngineOptions (EngineConfigContext.EngineOptions c))]"

definition engineConfigTmpl :: string where
  "engineConfigTmpl =
     ''\<newline>OPTIONS='\<newline>''
     @ ''-H tcp://0.0.0.0:{{.DockerPort}}\<newline>''
     @ ''-H unix:///var/run/docker.sock\<newline>''
     @ ''--storage-driver {{.EngineOptions.StorageDriver}}\<newline>''
     @ ''--tlsverify\<newline>''
     @ ''--tlscacert {{.AuthOptions.CaCertRemotePath}}\<newline>''
     @ ''--tlscert {{.AuthOptions.ServerCertRemotePath}}\<newline>''
     @ ''--tlskey {{.AuthOptions.ServerKeyRemotePath}}\<newline>''
     @ ''{{ range .EngineOptions.Labels }}--label {{.}}\<newline>''
     @ ''{{ end }}{{ range .EngineOptions.InsecureRegistry }}--insecure-registry {{.}}\<newline>''
     @ ''{{ end }}{{ range .EngineOptions.RegistryMirror }}--registry-mirror {{.}}\<newline>''
     @ ''{{ end }}{{ range .EngineOptions.ArbitraryFlags }}--{{.}}\<newline>''
     @ ''{{ end }}\<newline>''
     @ '''\<newline>''"

text \<open>
  \<^verbatim>\<open>GenerateDockerOptions\<close> of the template revision. The receiver is a pointer, so the
  assignment to \<^verbatim>\<open>provisioner.EngineOptions.Labels\<close> changes the provisioner: the function
  returns the provisioner after the call beside its result. The error of
  \<^verbatim>\<open>t.Execute\<close> is dropped by the source, and the buffer is used as it stands.
\<close>

definition GenerateDockerOptions ::
  "int \<Rightarrow> 's CentosProvisioner \<Rightarrow> 's CentosProvisioner \<times> (error + DockerOptions)" where
  "GenerateDockerOptions dockerPort p =
     (let driverNameLabel = ''provider='' @ DriverName (Driver p);
          p = p\<lparr>CentosProvisioner.EngineOptions :=
                  (CentosProvisioner.EngineOptions p)
                    \<lparr>Labels := Labels (CentosProvisioner.EngineOptions p) @ [driverNameLabel]\<rparr>\<rparr>
      in case template_Parse engineConfigTmpl of
           Inl err \<Rightarrow> (p, Inl err)
         | Inr t \<Rightarrow>
             (let engineConfigContext =
                    \<lparr> DockerPort = dockerPort,
                      AuthOptions = CentosProvisioner.AuthOptions p,
                      EngineOptions = CentosProvisioner.EngineOptions p \<rparr>;
                  engineCfg =
                    snd (template_Execute t (reflect_EngineConfigContext engineConfigContext) []);
                  daemonOptsDir = ''/etc/sysconfig/docker''
              in (p, Inr \<lparr> EngineOptions = engineCfg, EngineOptionsPath = daemonOptsDir \<rparr>)))"

text \<open>
  \<^verbatim>\<open>GenerateDockerOptions\<close> of \<^verbatim>\<open>centos.go\<close>. \<^verbatim>\<open>getDefaultDaemonOpts\<close> is declared
  outside the two files and is a parameter. The provisioner is read and not changed.
\<close>

definition GenerateDockerOptions_centos_go ::
  "(string \<Rightarrow> AuthOptions \<Rightarrow> string) \<Rightarrow> int \<Rightarrow> AuthOptions \<Rightarrow> 's CentosProvisioner
     \<Rightarrow> error + DockerOptions" where
  "GenerateDockerOptions_centos_go getDefaultDaemonOpts dockerPort authOptions p =
     (let defaultDaemonOpts = getDefaultDaemonOpts (DriverName (Driver p)) authOptions;
          daemonOpts = ''--host=unix:///var/run/docker.sock --host=tcp://0.0.0.0:''
                         @ format_int dockerPort;
          daemonOptsDir = ''/etc/sysconfig/docker'';
          daemonCfg = ''OPTIONS='' @ [CHR 0x27] @ defaultDaemonOpts @ '' '' @ daemonOpts
                        @ [CHR 0x27]
      in Inr \<lparr> EngineOptions = daemonCfg, EngineOptionsPath = daemonOptsDir \<rparr>)"

subsection \<open>Reference sequences for the properties of the bootstrap sequence\<close>

text \<open>
  The definitions of this subsection embed no function of the source. They state what
  the spec's section 4.7 expects of \<^verbatim>\<open>Provision\<close>: the calls of a complete run, in
  order, and a runner that issues a list of calls and stops at the first failure. The
  properties compare \<^verbatim>\<open>Provision\<close> with them.
\<close>

definition probe_call :: "Driver \<Rightarrow> call" where
  "probe_call d = Call_RunSSHCommandFromDriver d ''sudo docker version''"

definition calls_before_wait :: "Driver \<Rightarrow> string list \<Rightarrow> call list" where
  "calls_before_wait d pkgs =
     [Call_RunSSHCommandFromDriver d sudoers_command,
      Call_RunSSHCommandFromDriver d
        (''sudo hostname '' @ GetMachineName d @ '' && echo '' @ Quote (GetMachineName d)
           @ '' | sudo tee /etc/hostname''),
      Call_RunSSHCommandFromDriver d
        (''sudo sed -i '/^127.0.0.1/ s/$/ '' @ GetMachineName d @ ''/' /etc/hosts''),
      Call_RunSSHCommandFromDriver d ''yum -y update'']
     @ map (\<lambda>pkg. Call_RunSSHCommandFromDriver d (''sudo -E yum -y install '' @ pkg)) pkgs
     @ [Call_RunSSHCommandFromDriver d firewalld_command, Call_installDockerGeneric]"

definition calls_after_wait :: "call list" where
  "calls_after_wait = [Call_makeDockerOptionsDir, Call_ConfigureAuth, Call_configureSwarm]"

definition calls_after_wait_centos_go :: "call list" where
  "calls_after_wait_centos_go = [Call_ConfigureAuth, Call_configureSwarm]"

text \<open>The calls of a complete run in which the engine answers the \<open>k\<close>-th probe.\<close>

definition provision_script :: "Driver \<Rightarrow> string list \<Rightarrow> nat \<Rightarrow> call list" where
  "provision_script d pkgs k =
     calls_before_wait d pkgs @ replicate k (probe_call d) @ calls_after_wait"

definition provision_script_centos_go :: "Driver \<Rightarrow> string list \<Rightarrow> nat \<Rightarrow> call list" where
  "provision_script_centos_go d pkgs k =
     calls_before_wait d pkgs @ replicate k (probe_call d) @ calls_after_wait_centos_go"

text \<open>\<open>run_calls h cs t\<close> issues the calls \<open>cs\<close> in order after the calls \<open>t\<close> and stops at
  the first one that fails; \<open>poll h n c t\<close> issues \<open>c\<close> until it succeeds, \<open>n\<close> times at
  most.\<close>

fun run_calls :: "host \<Rightarrow> call list \<Rightarrow> call list \<Rightarrow> error option \<times> call list" where
  "run_calls h [] t = (None, t)"
| "run_calls h (c # cs) t =
     (case h t c of
        Some err \<Rightarrow> (Some err, t @ [c])
      | None \<Rightarrow> run_calls h cs (t @ [c]))"

fun poll :: "host \<Rightarrow> nat \<Rightarrow> call \<Rightarrow> call list \<Rightarrow> error option \<times> call list" where
  "poll h 0 c t = (Some ReadinessTimeoutError, t)"
| "poll h (Suc n) c t =
     (case h t c of
        None \<Rightarrow> (None, t @ [c])
      | Some err \<Rightarrow> poll h n c (t @ [c]))"

text \<open>\<open>and_then f g\<close>: run \<open>f\<close>; return its error, or go on with \<open>g\<close>.\<close>

definition and_then ::
  "('m \<Rightarrow> error option \<times> 'm) \<Rightarrow> ('m \<Rightarrow> error option \<times> 'm) \<Rightarrow> 'm \<Rightarrow> error option \<times> 'm" where
  "and_then f g = (\<lambda>m. case f m of (Some err, m') \<Rightarrow> (Some err, m') | (None, m') \<Rightarrow> g m')"

definition run_script ::
  "host \<Rightarrow> nat \<Rightarrow> call list \<Rightarrow> call \<Rightarrow> call list \<Rightarrow> call list \<Rightarrow> error option \<times> call list" where
  "run_script h n before p after =
     and_then (run_calls h before) (and_then (poll h n p) (run_calls h after))"

text \<open>
  \<open>follows f F\<close>: the function \<open>f\<close> on machines returns the error and issues the calls
  that \<open>F\<close> computes from the driver, the package list and the calls issued before, and
  leaves the driver and the package list as they are.
\<close>

definition follows ::
  "('s machine \<Rightarrow> error option \<times> 's machine)
     \<Rightarrow> (Driver \<Rightarrow> string list \<Rightarrow> call list \<Rightarrow> error option \<times> call list) \<Rightarrow> bool" where
  "follows f F =
     (\<forall>m. fst (f m) = fst (F (Driver (provisioner m)) (packages (provisioner m)) (issued m))
        \<and> issued (snd (f m)) = snd (F (Driver (provisioner m)) (packages (provisioner m)) (issued m))
        \<and> Driver (provisioner (snd (f m))) = Driver (provisioner m)
        \<and> packages (provisioner (snd (f m))) = packages (provisioner m))"

text \<open>
  \<open>fail_stop h p t new r\<close>: among the calls \<open>new\<close>, issued after \<open>t\<close>, a call other than
  the probe \<open>p\<close> that failed is the last one, and \<open>r\<close> is its error.
  \<open>all_succeed h t new\<close>: every call of \<open>new\<close> succeeded.
\<close>

definition fail_stop :: "host \<Rightarrow> call \<Rightarrow> call list \<Rightarrow> call list \<Rightarrow> error option \<Rightarrow> bool" where
  "fail_stop h p t new r =
     (\<forall>before c after. new = before @ c # after \<and> c \<noteq> p \<and> h (t @ before) c \<noteq> None
        \<longrightarrow> after = [] \<and> r = h (t @ before) c)"

definition all_succeed :: "host \<Rightarrow> call list \<Rightarrow> call list \<Rightarrow> bool" where
  "all_succeed h t new = (\<forall>before c after. new = before @ c # after \<longrightarrow> h (t @ before) c = None)"

subsection \<open>Concrete inputs\<close>

text \<open>A driver, a fresh provisioner on it, a host on which every call succeeds, and a
  host on which the installation of curl fails.\<close>

definition example_driver :: Driver where
  "example_driver = \<lparr> DriverName = ''packet'', GetMachineName = ''node1'' \<rparr>"

definition example_provisioner :: "unit CentosProvisioner" where
  "example_provisioner = NewCentosProvisioner () example_driver"

definition example_machine :: "unit machine" where
  "example_machine = \<lparr> provisioner = example_provisioner, issued = [] \<rparr>"

definition healthy_host :: host where
  "healthy_host t c = None"

definition failing_yum_host :: host where
  "failing_yum_host t c =
     (if c = Call_RunSSHCommandFromDriver example_driver ''sudo -E yum -y install curl''
      then Some (RemoteError ''exit status 1'') else None)"

text \<open>The run of \<open>Provision\<close> from the fresh machine on each of the two hosts, with three
  probes at most.\<close>

definition failing_run :: "error option \<times> unit machine" where
  "failing_run =
     Provision failing_yum_host 3 CentosProvisioner.AuthOptions ()
       (CentosProvisioner.AuthOptions example_provisioner)
       (CentosProvisioner.EngineOptions example_provisioner) example_machine"

definition healthy_run :: "error option \<times> unit machine" where
  "healthy_run =
     Provision healthy_host 3 CentosProvisioner.AuthOptions ()
       (CentosProvisioner.AuthOptions example_provisioner)
       (CentosProvisioner.EngineOptions example_provisioner) example_machine"

section \<open>Properties\<close>

subsection \<open>The bootstrap sequence follows the reference sequence\<close>

lemma run_calls_append:
  "run_calls h (cs @ ds) = and_then (run_calls h cs) (run_calls h ds)"
proof
  fix t show "run_calls h (cs @ ds) t = and_then (run_calls h cs) (run_calls h ds) t"
    by (induction cs arbitrary: t) (auto simp: and_then_def split: option.splits)
qed

lemma follows_and_then:
  fixes f g :: "'s machine \<Rightarrow> error option \<times> 's machine"
  assumes "follows f F" and "follows g G"
  shows "follows (and_then f g) (\<lambda>d pkgs. and_then (F d pkgs) (G d pkgs))"
  unfolding follows_def
proof
  fix m :: "'s machine"
  let ?d = "Driver (provisioner m)" and ?p = "packages (provisioner m)"
  obtain r m' where fm: "f m = (r, m')" by (cases "f m")
  from assms(1) fm have F: "F ?d ?p (issued m) = (r, issued m')"
    and d: "Driver (provisioner m') = ?d" and p: "packages (provisioner m') = ?p"
    by (auto simp: follows_def prod_eq_iff dest: spec[of _ m])
  show "fst (and_then f g m) = fst (and_then (F ?d ?p) (G ?d ?p) (issued m))
      \<and> issued (snd (and_then f g m)) = snd (and_then (F ?d ?p) (G ?d ?p) (issued m))
      \<and> Driver (provisioner (snd (and_then f g m))) = ?d
      \<and> packages (provisioner (snd (and_then f g m))) = ?p"
  proof (cases r)
    case (Some e)
    with fm F d p show ?thesis by (simp add: and_then_def)
  next
    case None
    from assms(2) have "fst (g m') = fst (G ?d ?p (issued m'))"
      "issued (snd (g m')) = snd (G ?d ?p (issued m'))"
      "Driver (provisioner (snd (g m'))) = ?d" "packages (provisioner (snd (g m'))) = ?p"
      using d p by (auto simp: follows_def dest: spec[of _ m'])
    with None fm F show ?thesis by (simp add: and_then_def)
  qed
qed

lemma follows_installDockerGeneric:
  "follows (installDockerGeneric h) (\<lambda>d pkgs. run_calls h [Call_installDockerGeneric])"
  by (simp add: follows_def installDockerGeneric_def perform_def split: option.split)

lemma follows_makeDockerOptionsDir:
  "follows (makeDockerOptionsDir h) (\<lambda>d pkgs. run_calls h [Call_makeDockerOptionsDir])"
  by (simp add: follows_def makeDockerOptionsDir_def perform_def split: option.split)

lemma follows_ConfigureAuth:
  "follows (ConfigureAuth h) (\<lambda>d pkgs. run_calls h [Call_ConfigureAuth])"
  by (simp add: follows_def ConfigureAuth_def perform_def split: option.split)

lemma follows_configureSwarm:
  "follows (configureSwarm h sw) (\<lambda>d pkgs. run_calls h [Call_configureSwarm])"
  by (simp add: follows_def configureSwarm_def perform_def split: option.split)

lemma follows_SSHCommand:
  "follows (SSHCommand h a) (\<lambda>d pkgs. run_calls h [Call_RunSSHCommandFromDriver d a])"
  by (simp add: follows_def SSHCommand_def perform_def split: option.split)

lemma follows_SetHostname:
  "follows (\<lambda>m. SetHostname h (GetMachineName (Driver (provisioner m))) m)
     (\<lambda>d pkgs. run_calls h
        [Call_RunSSHCommandFromDriver d
           (''sudo hostname '' @ GetMachineName d @ '' && echo '' @ Quote (GetMachineName d)
              @ '' | sudo tee /etc/hostname''),
         Call_RunSSHCommandFromDriver d
           (''sudo sed -i '/^127.0.0.1/ s/$/ '' @ GetMachineName d @ ''/' /etc/hosts'')])"
  by (simp add: follows_def SetHostname_def SSHCommand_def perform_def split: option.split)

lemma install_packages_run:
  "fst (install_packages (Package h) pkgs m) =
     fst (run_calls h (map (\<lambda>pkg. Call_RunSSHCommandFromDriver (Driver (provisioner m))
                                   (''sudo -E yum -y install '' @ pkg)) pkgs) (issued m))
   \<and> snd (install_packages (Package h) pkgs m) =
     m\<lparr>issued := snd (run_calls h (map (\<lambda>pkg. Call_RunSSHCommandFromDriver (Driver (provisioner m))
                                   (''sudo -E yum -y install '' @ pkg)) pkgs) (issued m))\<rparr>"
  by (induction pkgs arbitrary: m)
     (simp_all add: Package_def SSHCommand_def perform_def split: option.split)

lemma follows_install_packages:
  "follows (\<lambda>m. install_packages (Package h) (packages (provisioner m)) m)
     (\<lambda>d pkgs. run_calls h
        (map (\<lambda>pkg. Call_RunSSHCommandFromDriver d (''sudo -E yum -y install '' @ pkg)) pkgs))"
  by (simp add: follows_def install_packages_run)

lemma WaitFor_poll:
  "fst (WaitFor n (dockerDaemonResponding h) m) =
     fst (poll h n (probe_call (Driver (provisioner m))) (issued m))
   \<and> snd (WaitFor n (dockerDaemonResponding h) m) =
     m\<lparr>issued := snd (poll h n (probe_call (Driver (provisioner m))) (issued m))\<rparr>"
  by (induction n arbitrary: m)
     (simp_all add: dockerDaemonResponding_def SSHCommand_def perform_def probe_call_def
           split: option.split)

lemma follows_WaitFor:
  "follows (WaitFor n (dockerDaemonResponding h)) (\<lambda>d pkgs. poll h n (probe_call d))"
  by (simp add: follows_def WaitFor_poll)

lemma follows_update:
  assumes "follows g G"
    and "\<And>p. Driver (u p) = Driver p" and "\<And>p. packages (u p) = packages p"
  shows "follows (\<lambda>m. g (m\<lparr>provisioner := u (provisioner m)\<rparr>)) G"
  using assms by (simp add: follows_def)

lemma follows_return: "follows (\<lambda>m. (None, m)) (\<lambda>d pkgs. run_calls h [])"
  by (simp add: follows_def)

lemma Provision_and_then:
  "Provision h n sra sw au en =
     (\<lambda>m0. and_then (SSHCommand h sudoers_command)
        (and_then (\<lambda>m. SetHostname h (GetMachineName (Driver (provisioner m))) m)
        (and_then (SSHCommand h ''yum -y update'')
        (and_then (\<lambda>m. install_packages (Package h) (packages (provisioner m)) m)
        (and_then (SSHCommand h firewalld_command)
        (and_then (installDockerGeneric h)
        (and_then (WaitFor n (dockerDaemonResponding h))
        (and_then (makeDockerOptionsDir h)
        (\<lambda>m. and_then (ConfigureAuth h)
               (and_then (configureSwarm h sw) (\<lambda>m. (None, m)))
               (m\<lparr>provisioner := (\<lambda>p. p\<lparr>CentosProvisioner.AuthOptions := sra p\<rparr>) (provisioner m)\<rparr>)))))))))
        (m0\<lparr>provisioner := (\<lambda>p. p\<lparr>SwarmOptions := sw, CentosProvisioner.AuthOptions := au, CentosProvisioner.EngineOptions := en\<rparr>)
                               (provisioner m0)\<rparr>))"
  unfolding Provision_def and_then_def Let_def by (rule refl)


lemma and_then_assoc: "and_then (and_then f g) k = and_then f (and_then g k)"
  by (auto simp: and_then_def fun_eq_iff split: prod.splits option.splits)

lemma and_then_run_calls:
  "and_then (run_calls h cs) (and_then (run_calls h ds) R) = and_then (run_calls h (cs @ ds)) R"
  by (simp add: run_calls_append and_then_assoc)

lemma follows_Provision:
  "follows (Provision h n sra sw au en)
     (\<lambda>d pkgs. run_script h n (calls_before_wait d pkgs) (probe_call d) calls_after_wait)"
proof -
  have "follows (Provision h n sra sw au en)
     (\<lambda>d pkgs.
        and_then (run_calls h [Call_RunSSHCommandFromDriver d sudoers_command])
       (and_then (run_calls h
          [Call_RunSSHCommandFromDriver d
             (''sudo hostname '' @ GetMachineName d @ '' && echo '' @ Quote (GetMachineName d)
                @ '' | sudo tee /etc/hostname''),
           Call_RunSSHCommandFromDriver d
             (''sudo sed -i '/^127.0.0.1/ s/$/ '' @ GetMachineName d @ ''/' /etc/hosts'')])
       (and_then (run_calls h [Call_RunSSHCommandFromDriver d ''yum -y update''])
       (and_then (run_calls h
          (map (\<lambda>pkg. Call_RunSSHCommandFromDriver d (''sudo -E yum -y install '' @ pkg)) pkgs))
       (and_then (run_calls h [Call_RunSSHCommandFromDriver d firewalld_command])
       (and_then (run_calls h [Call_installDockerGeneric])
       (and_then (poll h n (probe_call d))
       (and_then (run_calls h [Call_makeDockerOptionsDir])
       (and_then (run_calls h [Call_ConfigureAuth])
       (and_then (run_calls h [Call_configureSwarm]) (run_calls h [])))))))))))"
    unfolding Provision_and_then
  proof (rule follows_update)
    show "follows
      (and_then (SSHCommand h sudoers_command)
        (and_then (\<lambda>m. SetHostname h (GetMachineName (Driver (provisioner m))) m)
        (and_then (SSHCommand h ''yum -y update'')
        (and_then (\<lambda>m. install_packages (Package h) (packages (provisioner m)) m)
        (and_then (SSHCommand h firewalld_command)
        (and_then (installDockerGeneric h)
        (and_then (WaitFor n (dockerDaemonResponding h))
        (and_then (makeDockerOptionsDir h)
        (\<lambda>m. and_then (ConfigureAuth h)
               (and_then (configureSwarm h sw) (\<lambda>m. (None, m)))
               (m\<lparr>provisioner := (\<lambda>p. p\<lparr>CentosProvisioner.AuthOptions := sra p\<rparr>)
                                     (provisioner m)\<rparr>))))))))))
      (\<lambda>d pkgs.
        and_then (run_calls h [Call_RunSSHCommandFromDriver d sudoers_command])
       (and_then (run_calls h
          [Call_RunSSHCommandFromDriver d
             (''sudo hostname '' @ GetMachineName d @ '' && echo '' @ Quote (GetMachineName d)
                @ '' | sudo tee /etc/hostname''),
           Call_RunSSHCommandFromDriver d
             (''sudo sed -i '/^127.0.0.1/ s/$/ '' @ GetMachineName d @ ''/' /etc/hosts'')])
       (and_then (run_calls h [Call_RunSSHCommandFromDriver d ''yum -y update''])
       (and_then (run_calls h
          (map (\<lambda>pkg. Call_RunSSHCommandFromDriver d (''sudo -E yum -y install '' @ pkg)) pkgs))
       (and_then (run_calls h [Call_RunSSHCommandFromDriver d firewalld_command])
       (and_then (run_calls h [Call_installDockerGeneric])
       (and_then (poll h n (probe_call d))
       (and_then (run_calls h [Call_makeDockerOptionsDir])
       (and_then (run_calls h [Call_ConfigureAuth])
       (and_then (run_calls h [Call_configureSwarm]) (run_calls h [])))))))))))"
    proof (intro follows_and_then follows_SSHCommand follows_SetHostname
        follows_install_packages follows_WaitFor follows_installDockerGeneric
        follows_makeDockerOptionsDir)
      show "follows
        (\<lambda>m. and_then (ConfigureAuth h)
               (and_then (configureSwarm h sw) (\<lambda>m. (None, m)))
               (m\<lparr>provisioner := (\<lambda>p. p\<lparr>CentosProvisioner.AuthOptions := sra p\<rparr>)
                                     (provisioner m)\<rparr>))
        (\<lambda>d pkgs. and_then (run_calls h [Call_ConfigureAuth])
           (and_then (run_calls h [Call_configureSwarm]) (run_calls h [])))"
        by (rule follows_update)
           (intro follows_and_then follows_ConfigureAuth follows_configureSwarm follows_return,
            simp_all)
    qed
  qed simp_all
  also have "(\<lambda>d pkgs.
        and_then (run_calls h [Call_RunSSHCommandFromDriver d sudoers_command])
       (and_then (run_calls h
          [Call_RunSSHCommandFromDriver d
             (''sudo hostname '' @ GetMachineName d @ '' && echo '' @ Quote (GetMachineName d)
                @ '' | sudo tee /etc/hostname''),
           Call_RunSSHCommandFromDriver d
             (''sudo sed -i '/^127.0.0.1/ s/$/ '' @ GetMachineName d @ ''/' /etc/hosts'')])
       (and_then (run_calls h [Call_RunSSHCommandFromDriver d ''yum -y update''])
       (and_then (run_calls h
          (map (\<lambda>pkg. Call_RunSSHCommandFromDriver d (''sudo -E yum -y install '' @ pkg)) pkgs))
       (and_then (run_calls h [Call_RunSSHCommandFromDriver d firewalld_command])
       (and_then (run_calls h [Call_installDockerGeneric])
       (and_then (poll h n (probe_call d))
       (and_then (run_calls h [Call_makeDockerOptionsDir])
       (and_then (run_calls h [Call_ConfigureAuth])
       (and_then (run_calls h [Call_configureSwarm]) (run_calls h [])))))))))))
     = (\<lambda>d pkgs. run_script h n (calls_before_wait d pkgs) (probe_call d) calls_after_wait)"
    unfolding run_script_def calls_before_wait_def calls_after_wait_def
    by (simp only: and_then_run_calls run_calls_append[symmetric] append.simps append_Nil2)
  finally show ?thesis .
qed


lemma fail_stop_Nil: "fail_stop h p t [] r"
  by (simp add: fail_stop_def)

lemma all_succeed_Nil: "all_succeed h t []"
  by (simp add: all_succeed_def)

lemma all_succeed_Cons:
  "all_succeed h t (c # cs) = (h t c = None \<and> all_succeed h (t @ [c]) cs)"
  by (auto simp: all_succeed_def Cons_eq_append_conv)

lemma fail_stop_single: "fail_stop h p t [c] (h t c)"
  by (auto simp: fail_stop_def Cons_eq_append_conv)

lemma fail_stop_Cons:
  "h t c = None \<Longrightarrow> fail_stop h p (t @ [c]) new r \<Longrightarrow> fail_stop h p t (c # new) r"
  unfolding fail_stop_def by (auto simp: Cons_eq_append_conv)

lemma run_calls_props:
  "run_calls h cs t = (r, t') \<Longrightarrow>
     \<exists>new. t' = t @ new \<and> prefix new cs
       \<and> (r = None \<longrightarrow> new = cs \<and> all_succeed h t cs)
       \<and> fail_stop h p t new r
       \<and> (\<forall>e. r = Some e \<longrightarrow> (\<exists>before c. new = before @ [c] \<and> h (t @ before) c = Some e))"
proof (induction cs arbitrary: t)
  case Nil
  then show ?case by (simp add: fail_stop_Nil all_succeed_Nil)
next
  case (Cons c cs)
  show ?case
  proof (cases "h t c")
    case (Some e)
    with Cons.prems have "r = Some e" "t' = t @ [c]" by auto
    moreover have "fail_stop h p t [c] (Some e)" using fail_stop_single[of h p t c] Some by simp
    moreover have "[c] = [] @ [c] \<and> h (t @ []) c = Some e" using Some by simp
    ultimately show ?thesis by (intro exI[of _ "[c]"]) auto
  next
    case None
    with Cons.prems have "run_calls h cs (t @ [c]) = (r, t')" by simp
    from Cons.IH[OF this] obtain new where new: "t' = (t @ [c]) @ new" "prefix new cs"
      "r = None \<longrightarrow> new = cs \<and> all_succeed h (t @ [c]) cs"
      "fail_stop h p (t @ [c]) new r"
      "\<forall>e. r = Some e \<longrightarrow> (\<exists>before c'. new = before @ [c'] \<and> h ((t @ [c]) @ before) c' = Some e)"
      by blast
    have "\<forall>e. r = Some e \<longrightarrow> (\<exists>before c'. c # new = before @ [c'] \<and> h (t @ before) c' = Some e)"
    proof (intro allI impI)
      fix e assume "r = Some e"
      with new(5) obtain before c' where "new = before @ [c']" "h ((t @ [c]) @ before) c' = Some e"
        by blast
      then have "c # new = (c # before) @ [c'] \<and> h (t @ (c # before)) c' = Some e" by simp
      then show "\<exists>before c'. c # new = before @ [c'] \<and> h (t @ before) c' = Some e" by blast
    qed
    with new None show ?thesis
      by (intro exI[of _ "c # new"]) (simp add: all_succeed_Cons fail_stop_Cons)
  qed
qed

lemma poll_props:
  "poll h n p t = (r, t') \<Longrightarrow>
     \<exists>k\<le>n. t' = t @ replicate k p
       \<and> (r = None \<longrightarrow> 1 \<le> k \<and> h (t @ replicate (k - 1) p) p = None)
       \<and> (\<forall>i<k - 1. h (t @ replicate i p) p \<noteq> None)
       \<and> (r \<noteq> None \<longrightarrow> r = Some ReadinessTimeoutError \<and> k = n
             \<and> (\<forall>i<n. h (t @ replicate i p) p \<noteq> None))"
proof (induction n arbitrary: t)
  case 0
  then show ?case by auto
next
  case (Suc n)
  show ?case
  proof (cases "h t p")
    case None
    with Suc.prems have "r = None" "t' = t @ replicate 1 p" by auto
    with None show ?thesis by (intro exI[of _ 1]) simp
  next
    case (Some e)
    with Suc.prems have "poll h n p (t @ [p]) = (r, t')" by simp
    from Suc.IH[OF this] obtain k where k: "k \<le> n" "t' = (t @ [p]) @ replicate k p"
      "r = None \<longrightarrow> 1 \<le> k \<and> h ((t @ [p]) @ replicate (k - 1) p) p = None"
      "\<forall>i<k - 1. h ((t @ [p]) @ replicate i p) p \<noteq> None"
      "r \<noteq> None \<longrightarrow> r = Some ReadinessTimeoutError \<and> k = n
             \<and> (\<forall>i<n. h ((t @ [p]) @ replicate i p) p \<noteq> None)"
      by blast
    have shift: "\<And>i. (t @ [p]) @ replicate i p = t @ replicate (Suc i) p" by simp
    have a: "\<forall>i<Suc k - 1. h (t @ replicate i p) p \<noteq> None"
    proof (intro allI impI)
      fix i assume i: "i < Suc k - 1"
      show "h (t @ replicate i p) p \<noteq> None"
      proof (cases i)
        case 0 with Some show ?thesis by simp
      next
        case (Suc j)
        with i have "j < k - 1" by simp
        with k(4) shift[of j] Suc show ?thesis by simp
      qed
    qed
    have b: "r \<noteq> None \<longrightarrow> (\<forall>i<Suc n. h (t @ replicate i p) p \<noteq> None)"
    proof (intro allI impI)
      fix i assume r: "r \<noteq> None" and i: "i < Suc n"
      show "h (t @ replicate i p) p \<noteq> None"
      proof (cases i)
        case 0 with Some show ?thesis by simp
      next
        case (Suc j)
        with i have "j < n" by simp
        with k(5) r shift[of j] Suc show ?thesis by simp
      qed
    qed
    have c: "r = None \<longrightarrow> 1 \<le> Suc k \<and> h (t @ replicate (Suc k - 1) p) p = None"
    proof
      assume "r = None"
      with k(3) have "1 \<le> k" "h ((t @ [p]) @ replicate (k - 1) p) p = None" by auto
      with shift[of "k - 1"] show "1 \<le> Suc k \<and> h (t @ replicate (Suc k - 1) p) p = None" by simp
    qed
    from k(1,2,5) a b c shift[of k] show ?thesis
      by (intro exI[of _ "Suc k"]) (simp del: replicate_Suc append_assoc)
  qed
qed

lemma fail_stopD:
  "fail_stop h p t new r \<Longrightarrow> new = before @ c # after \<Longrightarrow> c \<noteq> p \<Longrightarrow> h (t @ before) c \<noteq> None
     \<Longrightarrow> after = [] \<and> r = h (t @ before) c"
  unfolding fail_stop_def by blast

lemma fail_stop_append:
  assumes ok: "\<And>before c after. new1 = before @ c # after \<Longrightarrow> c = p \<or> h (t @ before) c = None"
    and fs: "fail_stop h p (t @ new1) new2 r"
  shows "fail_stop h p t (new1 @ new2) r"
  unfolding fail_stop_def
proof (intro allI impI, elim conjE)
  fix before c after
  assume eq: "new1 @ new2 = before @ c # after" and cp: "c \<noteq> p"
    and fail: "h (t @ before) c \<noteq> None"
  from eq[unfolded append_eq_append_conv2] obtain us where
    "(new1 = before @ us \<and> us @ new2 = c # after) \<or> (new1 @ us = before \<and> new2 = us @ c # after)"
    by blast
  then show "after = [] \<and> r = h (t @ before) c"
  proof
    assume b: "new1 = before @ us \<and> us @ new2 = c # after"
    show ?thesis
    proof (cases us)
      case Nil
      with b have n2: "new2 = [] @ c # after" and tb: "(t @ new1) @ [] = t @ before" by simp_all
      from fail tb have "h ((t @ new1) @ []) c \<noteq> None" by simp
      from fail_stopD[OF fs n2 cp this] tb show ?thesis by simp
    next
      case (Cons u us')
      with b have "new1 = before @ c # us'" by simp
      from ok[OF this] cp fail show ?thesis by simp
    qed
  next
    assume b: "new1 @ us = before \<and> new2 = us @ c # after"
    then have n2: "new2 = us @ c # after" and tb: "(t @ new1) @ us = t @ before" by auto
    from fail tb have "h ((t @ new1) @ us) c \<noteq> None" by simp
    from fail_stopD[OF fs n2 cp this] tb show ?thesis by simp
  qed
qed

lemma replicate_decomp: "replicate k p = before @ c # after \<Longrightarrow> c = p"
proof -
  assume "replicate k p = before @ c # after"
  then have "c \<in> set (replicate k p)" by simp
  then show "c = p" by simp
qed

lemma all_succeedD: "all_succeed h t new \<Longrightarrow> new = before @ c # after \<Longrightarrow> h (t @ before) c = None"
  unfolding all_succeed_def by blast

lemma before_probes_ok:
  assumes ok: "all_succeed h t before"
    and eq: "before @ replicate k p = b @ c # a"
  shows "c = p \<or> h (t @ b) c = None"
proof -
  from eq[unfolded append_eq_append_conv2] obtain us where
    "(before = b @ us \<and> us @ replicate k p = c # a) \<or> (before @ us = b \<and> replicate k p = us @ c # a)"
    by blast
  then show ?thesis
  proof
    assume x: "before = b @ us \<and> us @ replicate k p = c # a"
    show ?thesis
    proof (cases us)
      case Nil
      with x have "replicate k p = [] @ c # a" by simp
      from replicate_decomp[OF this] show ?thesis by simp
    next
      case (Cons u us')
      with x have "before = b @ c # us'" by simp
      from all_succeedD[OF ok this] show ?thesis by simp
    qed
  next
    assume "before @ us = b \<and> replicate k p = us @ c # a"
    then have "replicate k p = us @ c # a" by simp
    from replicate_decomp[OF this] show ?thesis by simp
  qed
qed

lemma run_script_props:
  assumes "run_script h n before p after t = (r, t')"
  shows "\<exists>new k. t' = t @ new \<and> k \<le> n
      \<and> prefix new (before @ replicate k p @ after)
      \<and> (r = None \<longrightarrow> new = before @ replicate k p @ after \<and> 1 \<le> k
            \<and> h (t @ before @ replicate (k - 1) p) p = None)
      \<and> fail_stop h p t new r
      \<and> (\<forall>e. r = Some e \<longrightarrow>
            (\<exists>b c. new = b @ [c] \<and> h (t @ b) c = Some e)
            \<or> (e = ReadinessTimeoutError \<and> new = before @ replicate n p))"
proof -
  obtain r1 t1 where r1: "run_calls h before t = (r1, t1)" by (cases "run_calls h before t")
  from run_calls_props[OF r1, of p] obtain new1 where new1: "t1 = t @ new1" "prefix new1 before"
    "r1 = None \<longrightarrow> new1 = before \<and> all_succeed h t before"
    "fail_stop h p t new1 r1"
    "\<forall>e. r1 = Some e \<longrightarrow> (\<exists>b c. new1 = b @ [c] \<and> h (t @ b) c = Some e)"
    by blast
  show ?thesis
  proof (cases r1)
    case (Some e)
    with assms r1 have res: "r = r1" "t' = t1" by (simp_all add: run_script_def and_then_def)
    show ?thesis
    proof (intro exI[of _ new1] exI[of _ 0] conjI)
      show "t' = t @ new1" using res new1(1) by simp
      show "0 \<le> n" by simp
      show "prefix new1 (before @ replicate 0 p @ after)" using new1(2) by (simp add: prefix_prefix)
      show "r = None \<longrightarrow> new1 = before @ replicate 0 p @ after \<and> 1 \<le> (0::nat)
            \<and> h (t @ before @ replicate (0 - 1) p) p = None" using res Some by simp
      show "fail_stop h p t new1 r" using res new1(4) by simp
      show "\<forall>e. r = Some e \<longrightarrow>
            (\<exists>b c. new1 = b @ [c] \<and> h (t @ b) c = Some e)
            \<or> (e = ReadinessTimeoutError \<and> new1 = before @ replicate n p)"
        using res new1(5) by blast
    qed
  next
    case None
    with new1 have before: "new1 = before" "all_succeed h t before" by simp_all
    obtain r2 t2 where r2: "poll h n p t1 = (r2, t2)" by (cases "poll h n p t1")
    from poll_props[OF r2] obtain k where k: "k \<le> n" "t2 = t1 @ replicate k p"
      "r2 = None \<longrightarrow> 1 \<le> k \<and> h (t1 @ replicate (k - 1) p) p = None"
      "r2 \<noteq> None \<longrightarrow> r2 = Some ReadinessTimeoutError \<and> k = n"
      by blast
    have t2: "t2 = t @ (before @ replicate k p)" using k(2) new1(1) before(1) by simp
    have bp: "\<And>b c a. before @ replicate k p = b @ c # a \<Longrightarrow> c = p \<or> h (t @ b) c = None"
      by (rule before_probes_ok[OF before(2)])
    show ?thesis
    proof (cases r2)
      case (Some e)
      with k have e: "r2 = Some ReadinessTimeoutError" "k = n" by simp_all
      with assms r1 r2 None have res: "r = Some ReadinessTimeoutError" "t' = t2"
        by (simp_all add: run_script_def and_then_def)
      have "fail_stop h p t ((before @ replicate k p) @ []) r"
        by (rule fail_stop_append[of "before @ replicate k p" p h t "[]" r, OF bp fail_stop_Nil])
      then have fs: "fail_stop h p t (before @ replicate n p) r" using e by simp
      show ?thesis
      proof (intro exI[of _ "before @ replicate n p"] exI[of _ n] conjI)
        show "t' = t @ before @ replicate n p" using res t2 e by simp
        show "n \<le> n" by simp
        show "prefix (before @ replicate n p) (before @ replicate n p @ after)" by simp
        show "r = None \<longrightarrow> before @ replicate n p = before @ replicate n p @ after \<and> 1 \<le> n
            \<and> h (t @ before @ replicate (n - 1) p) p = None" using res by simp
        show "fail_stop h p t (before @ replicate n p) r" by (rule fs)
        show "\<forall>e. r = Some e \<longrightarrow>
            (\<exists>b c. before @ replicate n p = b @ [c] \<and> h (t @ b) c = Some e)
            \<or> (e = ReadinessTimeoutError \<and> before @ replicate n p = before @ replicate n p)"
          using res by simp
      qed
    next
      case r2None: None
      with k have k1: "1 \<le> k" "h (t1 @ replicate (k - 1) p) p = None" by simp_all
      from assms r1 r2 None r2None have r3: "run_calls h after t2 = (r, t')"
        by (simp add: run_script_def and_then_def)
      from run_calls_props[OF r3, of p] obtain new3 where new3: "t' = t2 @ new3" "prefix new3 after"
        "r = None \<longrightarrow> new3 = after"
        "fail_stop h p t2 new3 r"
        "\<forall>e. r = Some e \<longrightarrow> (\<exists>b c. new3 = b @ [c] \<and> h (t2 @ b) c = Some e)"
        by blast
      from new3(4) t2 have "fail_stop h p (t @ (before @ replicate k p)) new3 r" by simp
      from fail_stop_append[of "before @ replicate k p" p h t new3 r, OF bp this]
      have fs: "fail_stop h p t (before @ replicate k p @ new3) r" by simp
      show ?thesis
      proof (intro exI[of _ "before @ replicate k p @ new3"] exI[of _ k] conjI)
        show "t' = t @ before @ replicate k p @ new3" using new3(1) t2 by simp
        show "k \<le> n" by (rule k(1))
        show "prefix (before @ replicate k p @ new3) (before @ replicate k p @ after)"
          using new3(2) by simp
        show "r = None \<longrightarrow> before @ replicate k p @ new3 = before @ replicate k p @ after \<and> 1 \<le> k
            \<and> h (t @ before @ replicate (k - 1) p) p = None"
          using new3(3) k1 new1(1) before(1) by simp
        show "fail_stop h p t (before @ replicate k p @ new3) r" by (rule fs)
        show "\<forall>e. r = Some e \<longrightarrow>
            (\<exists>b c. before @ replicate k p @ new3 = b @ [c] \<and> h (t @ b) c = Some e)
            \<or> (e = ReadinessTimeoutError \<and> before @ replicate k p @ new3 = before @ replicate n p)"
        proof (intro allI impI disjI1)
          fix e assume "r = Some e"
          with new3(5) obtain b c where "new3 = b @ [c]" "h (t2 @ b) c = Some e" by blast
          with t2 have "before @ replicate k p @ new3 = (before @ replicate k p @ b) @ [c]
              \<and> h (t @ (before @ replicate k p @ b)) c = Some e" by simp
          then show "\<exists>b c. before @ replicate k p @ new3 = b @ [c] \<and> h (t @ b) c = Some e"
            by blast
        qed
      qed
    qed
  qed
qed

lemma followsD:
  assumes "follows f F" and "f m = (r, m')"
  shows "F (Driver (provisioner m)) (packages (provisioner m)) (issued m) = (r, issued m')"
proof -
  from assms(1) have "fst (f m) = fst (F (Driver (provisioner m)) (packages (provisioner m)) (issued m))"
    and "issued (snd (f m)) = snd (F (Driver (provisioner m)) (packages (provisioner m)) (issued m))"
    unfolding follows_def by blast+
  with assms(2) show ?thesis by (simp add: prod_eq_iff)
qed

subsection \<open>Abort at the first failure\<close>

text \<open>
  The command of the readiness probe is issued by the wait alone: it is none of the
  calls before the wait, whatever the package names are, and none of the calls after
  it. So the calls that the next theorem sets aside as probes are the probes of the
  wait.
\<close>

lemma probe_call_only_in_wait:
  "probe_call d \<notin> set (calls_before_wait d pkgs)
   \<and> probe_call d \<notin> set calls_after_wait
   \<and> probe_call d \<notin> set calls_after_wait_centos_go"
  by (auto simp: probe_call_def calls_before_wait_def calls_after_wait_def
      calls_after_wait_centos_go_def sudoers_command_def firewalld_command_def)

text \<open>
  C2. Whatever the host answers, the calls that a run of \<open>Provision\<close> issues are an initial
  part of the complete sequence \<open>provision_script\<close>: the steps run in order and none
  is skipped. A call that fails, a readiness probe aside, is the last call of the run,
  and its error is what \<open>Provision\<close> returns. An error that \<open>Provision\<close> returns is
  the error of the last call issued, or the poller's timeout after \<open>maxAttempts\<close> failed
  probes, after which nothing is issued. A run without error has issued the complete
  sequence, with a last probe that succeeded.
\<close>

theorem Provision_aborts_at_first_failure:
  assumes "Provision h maxAttempts sra sw au en m0 = (r, m)"
  shows "\<exists>new k. issued m = issued m0 @ new \<and> k \<le> maxAttempts
      \<and> prefix new (provision_script (Driver (provisioner m0)) (packages (provisioner m0)) k)
      \<and> (r = None \<longrightarrow>
            new = provision_script (Driver (provisioner m0)) (packages (provisioner m0)) k
            \<and> 1 \<le> k
            \<and> h (issued m0 @ calls_before_wait (Driver (provisioner m0)) (packages (provisioner m0))
                   @ replicate (k - 1) (probe_call (Driver (provisioner m0))))
                (probe_call (Driver (provisioner m0))) = None)
      \<and> (\<forall>before c after.
            new = before @ c # after \<and> c \<noteq> probe_call (Driver (provisioner m0))
              \<and> h (issued m0 @ before) c \<noteq> None
            \<longrightarrow> after = [] \<and> r = h (issued m0 @ before) c)
      \<and> (\<forall>e. r = Some e \<longrightarrow>
            (\<exists>before c. new = before @ [c] \<and> h (issued m0 @ before) c = Some e)
            \<or> (e = ReadinessTimeoutError
                \<and> new = calls_before_wait (Driver (provisioner m0)) (packages (provisioner m0))
                          @ replicate maxAttempts (probe_call (Driver (provisioner m0)))))"
  using run_script_props[OF followsD[OF follows_Provision assms]]
  unfolding provision_script_def fail_stop_def .

text \<open>
  The theorem of C2 on two runs from the fresh machine. On the host where the
  installation of curl fails, \<open>Provision\<close> returns that error after five calls and the
  firewalld command is not among them. On the host where every call succeeds it
  returns no error and has issued the complete sequence with one probe.
\<close>

theorem Provision_aborts_at_first_failure_witness:
  "Provision failing_yum_host 3 CentosProvisioner.AuthOptions ()
       (CentosProvisioner.AuthOptions example_provisioner)
       (CentosProvisioner.EngineOptions example_provisioner) example_machine
     = (fst failing_run, snd failing_run)
   \<and> fst failing_run = Some (RemoteError ''exit status 1'')
   \<and> issued (snd failing_run) = take 5 (provision_script example_driver [''curl''] 0)
   \<and> Call_RunSSHCommandFromDriver example_driver firewalld_command
       \<notin> set (issued (snd failing_run))
   \<and> (\<exists>new k. issued (snd failing_run) = issued example_machine @ new \<and> k \<le> 3
      \<and> prefix new (provision_script (Driver (provisioner example_machine))
                       (packages (provisioner example_machine)) k)
      \<and> (fst failing_run = None \<longrightarrow>
            new = provision_script (Driver (provisioner example_machine))
                    (packages (provisioner example_machine)) k
            \<and> 1 \<le> k
            \<and> failing_yum_host
                (issued example_machine
                   @ calls_before_wait (Driver (provisioner example_machine))
                       (packages (provisioner example_machine))
                   @ replicate (k - 1) (probe_call (Driver (provisioner example_machine))))
                (probe_call (Driver (provisioner example_machine))) = None)
      \<and> (\<forall>before c after.
            new = before @ c # after \<and> c \<noteq> probe_call (Driver (provisioner example_machine))
              \<and> failing_yum_host (issued example_machine @ before) c \<noteq> None
            \<longrightarrow> after = [] \<and> fst failing_run = failing_yum_host (issued example_machine @ before) c)
      \<and> (\<forall>e. fst failing_run = Some e \<longrightarrow>
            (\<exists>before c. new = before @ [c]
               \<and> failing_yum_host (issued example_machine @ before) c = Some e)
            \<or> (e = ReadinessTimeoutError
                \<and> new = calls_before_wait (Driver (provisioner example_machine))
                          (packages (provisioner example_machine))
                          @ replicate 3 (probe_call (Driver (provisioner example_machine))))))
   \<and> Provision healthy_host 3 CentosProvisioner.AuthOptions ()
       (CentosProvisioner.AuthOptions example_provisioner)
       (CentosProvisioner.EngineOptions example_provisioner) example_machine
     = (fst healthy_run, snd healthy_run)
   \<and> fst healthy_run = None
   \<and> issued (snd healthy_run) = provision_script example_driver [''curl''] 1
   \<and> (\<exists>new k. issued (snd healthy_run) = issued example_machine @ new \<and> k \<le> 3
      \<and> prefix new (provision_script (Driver (provisioner example_machine))
                       (packages (provisioner example_machine)) k)
      \<and> (fst healthy_run = None \<longrightarrow>
            new = provision_script (Driver (provisioner example_machine))
                    (packages (provisioner example_machine)) k
            \<and> 1 \<le> k
            \<and> healthy_host
                (issued example_machine
                   @ calls_before_wait (Driver (provisioner example_machine))
                       (packages (provisioner example_machine))
                   @ replicate (k - 1) (probe_call (Driver (provisioner example_machine))))
                (probe_call (Driver (provisioner example_machine))) = None)
      \<and> (\<forall>before c after.
            new = before @ c # after \<and> c \<noteq> probe_call (Driver (provisioner example_machine))
              \<and> healthy_host (issued example_machine @ before) c \<noteq> None
            \<longrightarrow> after = [] \<and> fst healthy_run = healthy_host (issued example_machine @ before) c)
      \<and> (\<forall>e. fst healthy_run = Some e \<longrightarrow>
            (\<exists>before c. new = before @ [c]
               \<and> healthy_host (issued example_machine @ before) c = Some e)
            \<or> (e = ReadinessTimeoutError
                \<and> new = calls_before_wait (Driver (provisioner example_machine))
                          (packages (provisioner example_machine))
                          @ replicate 3 (probe_call (Driver (provisioner example_machine))))))"
proof -
  have failing: "Provision failing_yum_host 3 CentosProvisioner.AuthOptions ()
       (CentosProvisioner.AuthOptions example_provisioner)
       (CentosProvisioner.EngineOptions example_provisioner) example_machine
     = (fst failing_run, snd failing_run)"
    by (simp add: failing_run_def)
  have err: "fst failing_run = Some (RemoteError ''exit status 1'')"
    by code_simp
  have calls: "issued (snd failing_run) = take 5 (provision_script example_driver [''curl''] 0)"
    by code_simp
  have fw: "Call_RunSSHCommandFromDriver example_driver firewalld_command
              \<notin> set (issued (snd failing_run))"
    by code_simp
  have healthy: "Provision healthy_host 3 CentosProvisioner.AuthOptions ()
       (CentosProvisioner.AuthOptions example_provisioner)
       (CentosProvisioner.EngineOptions example_provisioner) example_machine
     = (fst healthy_run, snd healthy_run)"
    by (simp add: healthy_run_def)
  have ok: "fst healthy_run = None"
    by code_simp
  have all_calls: "issued (snd healthy_run) = provision_script example_driver [''curl''] 1"
    by code_simp
  show ?thesis
    by (intro conjI failing err calls fw healthy ok all_calls
          Provision_aborts_at_first_failure[OF failing]
          Provision_aborts_at_first_failure[OF healthy])
qed

text \<open>
  The same holds of \<^verbatim>\<open>Provision\<close> in \<^verbatim>\<open>centos.go\<close>, whose sequence has no
  \<^verbatim>\<open>makeDockerOptionsDir\<close> call.
\<close>

lemma install_packages_centos_go_run:
  "fst (install_packages (Package_centos_go h) pkgs m) =
     fst (run_calls h (map (\<lambda>pkg. Call_RunSSHCommandFromDriver (Driver (provisioner m))
                                   (''sudo -E yum -y install '' @ pkg)) pkgs) (issued m))
   \<and> snd (install_packages (Package_centos_go h) pkgs m) =
     m\<lparr>issued := snd (run_calls h (map (\<lambda>pkg. Call_RunSSHCommandFromDriver (Driver (provisioner m))
                                   (''sudo -E yum -y install '' @ pkg)) pkgs) (issued m))\<rparr>"
  by (induction pkgs arbitrary: m)
     (simp_all add: Package_centos_go_def SSHCommand_def perform_def split: option.split)

lemma follows_install_packages_centos_go:
  "follows (\<lambda>m. install_packages (Package_centos_go h) (packages (provisioner m)) m)
     (\<lambda>d pkgs. run_calls h
        (map (\<lambda>pkg. Call_RunSSHCommandFromDriver d (''sudo -E yum -y install '' @ pkg)) pkgs))"
  by (simp add: follows_def install_packages_centos_go_run)

lemma Provision_centos_go_and_then:
  "Provision_centos_go h n sw au =
     and_then (SSHCommand h sudoers_command)
        (and_then (\<lambda>m. SetHostname h (GetMachineName (Driver (provisioner m))) m)
        (and_then (SSHCommand h ''yum -y update'')
        (and_then (\<lambda>m. install_packages (Package_centos_go h) (packages (provisioner m)) m)
        (and_then (SSHCommand h firewalld_command)
        (and_then (installDockerGeneric h)
        (and_then (WaitFor n (dockerDaemonResponding h))
        (and_then (ConfigureAuth h)
        (and_then (configureSwarm h sw) (\<lambda>m. (None, m))))))))))"
  unfolding Provision_centos_go_def and_then_def by (rule ext) (rule refl)

lemma follows_Provision_centos_go:
  "follows (Provision_centos_go h n sw au)
     (\<lambda>d pkgs. run_script h n (calls_before_wait d pkgs) (probe_call d) calls_after_wait_centos_go)"
proof -
  have "follows (Provision_centos_go h n sw au)
     (\<lambda>d pkgs.
        and_then (run_calls h [Call_RunSSHCommandFromDriver d sudoers_command])
       (and_then (run_calls h
          [Call_RunSSHCommandFromDriver d
             (''sudo hostname '' @ GetMachineName d @ '' && echo '' @ Quote (GetMachineName d)
                @ '' | sudo tee /etc/hostname''),
           Call_RunSSHCommandFromDriver d
             (''sudo sed -i '/^127.0.0.1/ s/$/ '' @ GetMachineName d @ ''/' /etc/hosts'')])
       (and_then (run_calls h [Call_RunSSHCommandFromDriver d ''yum -y update''])
       (and_then (run_calls h
          (map (\<lambda>pkg. Call_RunSSHCommandFromDriver d (''sudo -E yum -y install '' @ pkg)) pkgs))
       (and_then (run_calls h [Call_RunSSHCommandFromDriver d firewalld_command])
       (and_then (run_calls h [Call_installDockerGeneric])
       (and_then (poll h n (probe_call d))
       (and_then (run_calls h [Call_ConfigureAuth])
       (and_then (run_calls h [Call_configureSwarm]) (run_calls h []))))))))))"
    unfolding Provision_centos_go_and_then
    by (intro follows_and_then follows_SSHCommand follows_SetHostname
        follows_install_packages_centos_go follows_WaitFor follows_return
        follows_installDockerGeneric follows_ConfigureAuth follows_configureSwarm)
  also have "(\<lambda>d pkgs.
        and_then (run_calls h [Call_RunSSHCommandFromDriver d sudoers_command])
       (and_then (run_calls h
          [Call_RunSSHCommandFromDriver d
             (''sudo hostname '' @ GetMachineName d @ '' && echo '' @ Quote (GetMachineName d)
                @ '' | sudo tee /etc/hostname''),
           Call_RunSSHCommandFromDriver d
             (''sudo sed -i '/^127.0.0.1/ s/$/ '' @ GetMachineName d @ ''/' /etc/hosts'')])
       (and_then (run_calls h [Call_RunSSHCommandFromDriver d ''yum -y update''])
       (and_then (run_calls h
          (map (\<lambda>pkg. Call_RunSSHCommandFromDriver d (''sudo -E yum -y install '' @ pkg)) pkgs))
       (and_then (run_calls h [Call_RunSSHCommandFromDriver d firewalld_command])
       (and_then (run_calls h [Call_installDockerGeneric])
       (and_then (poll h n (probe_call d))
       (and_then (run_calls h [Call_ConfigureAuth])
       (and_then (run_calls h [Call_configureSwarm]) (run_calls h []))))))))))
     = (\<lambda>d pkgs. run_script h n (calls_before_wait d pkgs) (probe_call d)
                  calls_after_wait_centos_go)"
    unfolding run_script_def calls_before_wait_def calls_after_wait_centos_go_def
    by (simp only: and_then_run_calls run_calls_append[symmetric] append.simps append_Nil2)
  finally show ?thesis .
qed

lemma Provision_centos_go_aborts_at_first_failure:
  assumes "Provision_centos_go h maxAttempts sw au m0 = (r, m)"
  shows "\<exists>new k. issued m = issued m0 @ new \<and> k \<le> maxAttempts
      \<and> prefix new
           (provision_script_centos_go (Driver (provisioner m0)) (packages (provisioner m0)) k)
      \<and> (r = None \<longrightarrow>
            new = provision_script_centos_go (Driver (provisioner m0))
                    (packages (provisioner m0)) k
            \<and> 1 \<le> k
            \<and> h (issued m0 @ calls_before_wait (Driver (provisioner m0)) (packages (provisioner m0))
                   @ replicate (k - 1) (probe_call (Driver (provisioner m0))))
                (probe_call (Driver (provisioner m0))) = None)
      \<and> (\<forall>before c after.
            new = before @ c # after \<and> c \<noteq> probe_call (Driver (provisioner m0))
              \<and> h (issued m0 @ before) c \<noteq> None
            \<longrightarrow> after = [] \<and> r = h (issued m0 @ before) c)
      \<and> (\<forall>e. r = Some e \<longrightarrow>
            (\<exists>before c. new = before @ [c] \<and> h (issued m0 @ before) c = Some e)
            \<or> (e = ReadinessTimeoutError
                \<and> new = calls_before_wait (Driver (provisioner m0)) (packages (provisioner m0))
                          @ replicate maxAttempts (probe_call (Driver (provisioner m0)))))"
  using run_script_props[OF followsD[OF follows_Provision_centos_go assms]]
  unfolding provision_script_centos_go_def fail_stop_def .

subsection \<open>Baseline packages\<close>

text \<open>
  C3. On a provisioner made by \<open>NewCentosProvisioner\<close>, a run of \<open>Provision\<close> that
  returns no error has issued the calls of the complete sequence for the package list
  \<open>[curl]\<close>, in order. The command that installs curl occurs in it exactly once, and
  the call of the engine installation routine comes after it and not before it.
\<close>

theorem Provision_installs_curl_once_before_engine:
  assumes "Provision h maxAttempts sra sw au en
             \<lparr> provisioner = NewCentosProvisioner z d, issued = t0 \<rparr> = (None, m)"
  shows "\<exists>before after k.
           issued m = t0 @ before
                        @ Call_RunSSHCommandFromDriver d ''sudo -E yum -y install curl'' # after
         \<and> Call_RunSSHCommandFromDriver d ''sudo -E yum -y install curl'' \<notin> set before
         \<and> Call_RunSSHCommandFromDriver d ''sudo -E yum -y install curl'' \<notin> set after
         \<and> Call_installDockerGeneric \<notin> set before
         \<and> Call_installDockerGeneric \<in> set after
         \<and> 1 \<le> k \<and> k \<le> maxAttempts
         \<and> before @ Call_RunSSHCommandFromDriver d ''sudo -E yum -y install curl'' # after
             = provision_script d [''curl''] k"
proof -
  let ?m0 = "\<lparr> provisioner = NewCentosProvisioner z d, issued = t0 \<rparr>"
  let ?install = "Call_RunSSHCommandFromDriver d ''sudo -E yum -y install curl''"
  have d: "Driver (provisioner ?m0) = d" and p: "packages (provisioner ?m0) = [''curl'']"
    and t: "issued ?m0 = t0"
    by (simp_all add: NewCentosProvisioner_def)
  from run_script_props[OF followsD[OF follows_Provision assms]]
  obtain new k where nk: "issued m = t0 @ new" "k \<le> maxAttempts" "1 \<le> k"
    "new = calls_before_wait d [''curl''] @ replicate k (probe_call d) @ calls_after_wait"
    unfolding d p t by blast
  let ?before = "[Call_RunSSHCommandFromDriver d sudoers_command,
      Call_RunSSHCommandFromDriver d
        (''sudo hostname '' @ GetMachineName d @ '' && echo '' @ Quote (GetMachineName d)
           @ '' | sudo tee /etc/hostname''),
      Call_RunSSHCommandFromDriver d
        (''sudo sed -i '/^127.0.0.1/ s/$/ '' @ GetMachineName d @ ''/' /etc/hosts''),
      Call_RunSSHCommandFromDriver d ''yum -y update'']"
  let ?after = "[Call_RunSSHCommandFromDriver d firewalld_command, Call_installDockerGeneric]
      @ replicate k (probe_call d) @ calls_after_wait"
  have script: "?before @ ?install # ?after = provision_script d [''curl''] k"
    by (simp add: provision_script_def calls_before_wait_def)
  show ?thesis
  proof (rule exI[of _ ?before], rule exI[of _ ?after], rule exI[of _ k], intro conjI)
    show "issued m = t0 @ ?before @ ?install # ?after"
      using nk(1,4) by (simp add: calls_before_wait_def)
    show "?install \<notin> set ?before"
      by (simp add: sudoers_command_def)
    show "?install \<notin> set ?after"
      by (simp add: firewalld_command_def probe_call_def calls_after_wait_def)
    show "Call_installDockerGeneric \<notin> set ?before" by simp
    show "Call_installDockerGeneric \<in> set ?after" by simp
    show "1 \<le> k" by (rule nk(3))
    show "k \<le> maxAttempts" by (rule nk(2))
    show "?before @ ?install # ?after = provision_script d [''curl''] k" by (rule script)
  qed
qed

text \<open>The theorem of C3 on the run from the fresh machine on the host where every call
  succeeds.\<close>

theorem Provision_installs_curl_once_before_engine_witness:
  "Provision healthy_host 3 CentosProvisioner.AuthOptions ()
       (CentosProvisioner.AuthOptions example_provisioner)
       (CentosProvisioner.EngineOptions example_provisioner)
       \<lparr> provisioner = NewCentosProvisioner () example_driver, issued = [] \<rparr>
     = (None, \<lparr> provisioner = NewCentosProvisioner () example_driver,
                issued = provision_script example_driver [''curl''] 1 \<rparr>)
   \<and> (\<exists>before after k.
         issued \<lparr> provisioner = NewCentosProvisioner () example_driver,
                  issued = provision_script example_driver [''curl''] 1 \<rparr>
           = [] @ before
               @ Call_RunSSHCommandFromDriver example_driver ''sudo -E yum -y install curl''
               # after
         \<and> Call_RunSSHCommandFromDriver example_driver ''sudo -E yum -y install curl''
             \<notin> set before
         \<and> Call_RunSSHCommandFromDriver example_driver ''sudo -E yum -y install curl''
             \<notin> set after
         \<and> Call_installDockerGeneric \<notin> set before
         \<and> Call_installDockerGeneric \<in> set after
         \<and> 1 \<le> k \<and> k \<le> 3
         \<and> before @ Call_RunSSHCommandFromDriver example_driver ''sudo -E yum -y install curl''
               # after
             = provision_script example_driver [''curl''] k)"
proof -
  have run: "Provision healthy_host 3 CentosProvisioner.AuthOptions ()
       (CentosProvisioner.AuthOptions example_provisioner)
       (CentosProvisioner.EngineOptions example_provisioner)
       \<lparr> provisioner = NewCentosProvisioner () example_driver, issued = [] \<rparr>
     = (None, \<lparr> provisioner = NewCentosProvisioner () example_driver,
                issued = provision_script example_driver [''curl''] 1 \<rparr>)"
    by code_simp
  show ?thesis
    by (rule conjI[OF run Provision_installs_curl_once_before_engine[OF run]])
qed

subsection \<open>Readiness\<close>

lemma WaitFor_only_times_out:
  "fst (WaitFor n (dockerDaemonResponding h) m) = None
   \<or> fst (WaitFor n (dockerDaemonResponding h) m) = Some ReadinessTimeoutError"
proof -
  obtain r t where rt: "poll h n (probe_call (Driver (provisioner m))) (issued m) = (r, t)"
    by (cases "poll h n (probe_call (Driver (provisioner m))) (issued m)")
  from poll_props[OF rt] have "r = None \<or> r = Some ReadinessTimeoutError" by blast
  with rt show ?thesis by (simp add: WaitFor_poll)
qed

text \<open>
  C8. \<open>dockerDaemonResponding\<close> issues the one command \<^verbatim>\<open>sudo docker version\<close> and returns
  true exactly when the host reports no error for it; a failure gives false, not an
  error. The poller returns success on the first probe that returns true and polls on
  after a probe that returns false; the only error it returns is its own timeout,
  never the error of the command.
\<close>

theorem dockerDaemonResponding_reports_readiness:
  "fst (dockerDaemonResponding h m)
     = (h (issued m)
          (Call_RunSSHCommandFromDriver (Driver (provisioner m)) ''sudo docker version'') = None)
   \<and> snd (dockerDaemonResponding h m)
     = m\<lparr>issued := issued m
          @ [Call_RunSSHCommandFromDriver (Driver (provisioner m)) ''sudo docker version'']\<rparr>
   \<and> WaitFor (Suc n) (dockerDaemonResponding h) m
     = (if fst (dockerDaemonResponding h m) then (None, snd (dockerDaemonResponding h m))
        else WaitFor n (dockerDaemonResponding h) (snd (dockerDaemonResponding h m)))
   \<and> (fst (WaitFor n (dockerDaemonResponding h) m) = None
      \<or> fst (WaitFor n (dockerDaemonResponding h) m) = Some ReadinessTimeoutError)"
proof (intro conjI)
  show "fst (dockerDaemonResponding h m)
     = (h (issued m)
          (Call_RunSSHCommandFromDriver (Driver (provisioner m)) ''sudo docker version'') = None)"
    by (simp add: dockerDaemonResponding_def SSHCommand_def perform_def split: option.split)
  show "snd (dockerDaemonResponding h m)
     = m\<lparr>issued := issued m
          @ [Call_RunSSHCommandFromDriver (Driver (provisioner m)) ''sudo docker version'']\<rparr>"
    by (simp add: dockerDaemonResponding_def SSHCommand_def perform_def split: option.split)
  show "WaitFor (Suc n) (dockerDaemonResponding h) m
     = (if fst (dockerDaemonResponding h m) then (None, snd (dockerDaemonResponding h m))
        else WaitFor n (dockerDaemonResponding h) (snd (dockerDaemonResponding h m)))"
    by (cases "dockerDaemonResponding h m") simp
  show "fst (WaitFor n (dockerDaemonResponding h) m) = None
      \<or> fst (WaitFor n (dockerDaemonResponding h) m) = Some ReadinessTimeoutError"
    by (rule WaitFor_only_times_out)
qed

subsection \<open>Package actions\<close>

text \<open>
  In the template revision every action of the enumeration gives a command with its
  verb and the package name.
\<close>

lemma Package_issues_verb:
  "Package h name action m =
     perform h
       (Call_RunSSHCommandFromDriver (Driver (provisioner m))
          (''sudo -E yum -y ''
             @ (case action of Install \<Rightarrow> ''install'' | Remove \<Rightarrow> ''remove''
                  | Upgrade \<Rightarrow> ''upgrade'')
             @ '' '' @ name)) m"
  by (simp add: Package_def SSHCommand_def perform_def Let_def split: option.split)

text \<open>
  C6. In \<^verbatim>\<open>centos.go\<close>, \<open>Package\<close> with the action \<open>Upgrade\<close> issues the command
  \<^verbatim>\<open>sudo -E yum -y\<close>, two spaces and the package name, with no verb, and returns
  whatever the host answers; on a host where every command succeeds it returns no
  error.
\<close>

theorem Package_centos_go_Upgrade_omits_verb:
  "Package_centos_go h name Upgrade m
     = (h (issued m)
          (Call_RunSSHCommandFromDriver (Driver (provisioner m)) (''sudo -E yum -y  '' @ name)),
        m\<lparr>issued := issued m
          @ [Call_RunSSHCommandFromDriver (Driver (provisioner m)) (''sudo -E yum -y  '' @ name)]\<rparr>)
   \<and> Package_centos_go healthy_host ''curl'' Upgrade example_machine
     = (None, example_machine
          \<lparr>issued := [Call_RunSSHCommandFromDriver example_driver ''sudo -E yum -y  curl'']\<rparr>)"
  by (simp add: Package_centos_go_def SSHCommand_def perform_def Let_def healthy_host_def
      example_machine_def example_provisioner_def NewCentosProvisioner_def
      split: option.split)

subsection \<open>Rendering\<close>

lemma engineConfigTmpl_parsed:
  "template_Parse engineConfigTmpl =
     Inr [TextNode ''\<newline>OPTIONS='\<newline>-H tcp://0.0.0.0:'',
          ActionNode [''DockerPort''],
          TextNode ''\<newline>-H unix:///var/run/docker.sock\<newline>--storage-driver '',
          ActionNode [''EngineOptions'', ''StorageDriver''],
          TextNode ''\<newline>--tlsverify\<newline>--tlscacert '',
          ActionNode [''AuthOptions'', ''CaCertRemotePath''],
          TextNode ''\<newline>--tlscert '',
          ActionNode [''AuthOptions'', ''ServerCertRemotePath''],
          TextNode ''\<newline>--tlskey '',
          ActionNode [''AuthOptions'', ''ServerKeyRemotePath''],
          TextNode ''\<newline>'',
          RangeNode [''EngineOptions'', ''Labels'']
            [TextNode ''--label '', ActionNode [], TextNode ''\<newline>''],
          RangeNode [''EngineOptions'', ''InsecureRegistry'']
            [TextNode ''--insecure-registry '', ActionNode [], TextNode ''\<newline>''],
          RangeNode [''EngineOptions'', ''RegistryMirror'']
            [TextNode ''--registry-mirror '', ActionNode [], TextNode ''\<newline>''],
          RangeNode [''EngineOptions'', ''ArbitraryFlags'']
            [TextNode ''--'', ActionNode [], TextNode ''\<newline>''],
          TextNode ''\<newline>'\<newline>'']"
  by code_simp

lemma walk_range_strings:
  "walk_range [TextNode a, ActionNode [], TextNode b] (map VString xs) buf =
     (None, buf @ concat (map (\<lambda>x. a @ x @ b) xs))"
  by (induction xs arbitrary: buf) simp_all

lemma GenerateDockerOptions_renders:
  "GenerateDockerOptions dockerPort p =
     (p\<lparr>CentosProvisioner.EngineOptions :=
          (CentosProvisioner.EngineOptions p)
            \<lparr>Labels := Labels (CentosProvisioner.EngineOptions p)
                         @ [''provider='' @ DriverName (Driver p)]\<rparr>\<rparr>,
      Inr \<lparr> DockerOptions.EngineOptions =
              ''\<newline>OPTIONS='\<newline>-H tcp://0.0.0.0:'' @ format_int dockerPort
              @ ''\<newline>-H unix:///var/run/docker.sock\<newline>--storage-driver ''
              @ StorageDriver (CentosProvisioner.EngineOptions p)
              @ ''\<newline>--tlsverify\<newline>--tlscacert ''
              @ CaCertRemotePath (CentosProvisioner.AuthOptions p)
              @ ''\<newline>--tlscert '' @ ServerCertRemotePath (CentosProvisioner.AuthOptions p)
              @ ''\<newline>--tlskey '' @ ServerKeyRemotePath (CentosProvisioner.AuthOptions p)
              @ ''\<newline>''
              @ concat (map (\<lambda>x. ''--label '' @ x @ ''\<newline>'')
                  (Labels (CentosProvisioner.EngineOptions p)
                     @ [''provider='' @ DriverName (Driver p)]))
              @ concat (map (\<lambda>x. ''--insecure-registry '' @ x @ ''\<newline>'')
                  (InsecureRegistry (CentosProvisioner.EngineOptions p)))
              @ concat (map (\<lambda>x. ''--registry-mirror '' @ x @ ''\<newline>'')
                  (RegistryMirror (CentosProvisioner.EngineOptions p)))
              @ concat (map (\<lambda>x. ''--'' @ x @ ''\<newline>'')
                  (ArbitraryFlags (CentosProvisioner.EngineOptions p)))
              @ ''\<newline>'\<newline>'',
            EngineOptionsPath = ''/etc/sysconfig/docker'' \<rparr>)"
  by (simp add: GenerateDockerOptions_def Let_def engineConfigTmpl_parsed template_Execute_def
      reflect_EngineConfigContext_def reflect_EngineOptions_def reflect_AuthOptions_def
      walk_range_strings del: map_append)

lemma format_int_2376: "format_int 2376 = ''2376''"
  by code_simp

text \<open>
  C1. On the fresh provisioner of the driver \<open>packet\<close>, the first call of
  \<open>GenerateDockerOptions\<close> with port 2376 renders one \<^verbatim>\<open>--label provider=packet\<close> line;
  the second call with the same port, on the provisioner that the first call left,
  renders two. The two texts differ.
\<close>

theorem GenerateDockerOptions_second_call_differs:
  "snd (GenerateDockerOptions 2376 example_provisioner)
     = Inr \<lparr> DockerOptions.EngineOptions =
               ''\<newline>OPTIONS='\<newline>-H tcp://0.0.0.0:2376\<newline>''
               @ ''-H unix:///var/run/docker.sock\<newline>--storage-driver \<newline>''
               @ ''--tlsverify\<newline>--tlscacert \<newline>--tlscert \<newline>--tlskey \<newline>''
               @ ''--label provider=packet\<newline>''
               @ ''\<newline>'\<newline>'',
             EngineOptionsPath = ''/etc/sysconfig/docker'' \<rparr>
   \<and> snd (GenerateDockerOptions 2376 (fst (GenerateDockerOptions 2376 example_provisioner)))
     = Inr \<lparr> DockerOptions.EngineOptions =
               ''\<newline>OPTIONS='\<newline>-H tcp://0.0.0.0:2376\<newline>''
               @ ''-H unix:///var/run/docker.sock\<newline>--storage-driver \<newline>''
               @ ''--tlsverify\<newline>--tlscacert \<newline>--tlscert \<newline>--tlskey \<newline>''
               @ ''--label provider=packet\<newline>''
               @ ''--label provider=packet\<newline>''
               @ ''\<newline>'\<newline>'',
             EngineOptionsPath = ''/etc/sysconfig/docker'' \<rparr>
   \<and> snd (GenerateDockerOptions 2376 (fst (GenerateDockerOptions 2376 example_provisioner)))
     \<noteq> snd (GenerateDockerOptions 2376 example_provisioner)"
  by (simp add: GenerateDockerOptions_renders format_int_2376 example_provisioner_def
      example_driver_def NewCentosProvisioner_def)

text \<open>
  The same for every provisioner and every port: the text of a second call is never
  the text of the first. \<open>GenerateDockerOptions\<close> of \<^verbatim>\<open>centos.go\<close> does not change the
  provisioner.
\<close>

lemma GenerateDockerOptions_never_repeats:
  "snd (GenerateDockerOptions dockerPort (fst (GenerateDockerOptions dockerPort p)))
     \<noteq> snd (GenerateDockerOptions dockerPort p)"
  by (simp add: GenerateDockerOptions_renders)

text \<open>
  C4. The text that \<open>GenerateDockerOptions\<close> returns contains the line
  \<^verbatim>\<open>--label provider=\<close> and the driver's name, and the provisioner's label list after the
  call is the list before it with that label appended.
\<close>

theorem GenerateDockerOptions_provider_label:
  "\<exists>cfg. snd (GenerateDockerOptions dockerPort p) = Inr cfg
     \<and> sublist (''--label provider='' @ DriverName (Driver p) @ ''\<newline>'')
         (DockerOptions.EngineOptions cfg)
     \<and> Labels (CentosProvisioner.EngineOptions (fst (GenerateDockerOptions dockerPort p)))
         = Labels (CentosProvisioner.EngineOptions p) @ [''provider='' @ DriverName (Driver p)]"
proof -
  let ?line = "''--label provider='' @ DriverName (Driver p) @ ''\<newline>''"
  let ?before = "''\<newline>OPTIONS='\<newline>-H tcp://0.0.0.0:'' @ format_int dockerPort
              @ ''\<newline>-H unix:///var/run/docker.sock\<newline>--storage-driver ''
              @ StorageDriver (CentosProvisioner.EngineOptions p)
              @ ''\<newline>--tlsverify\<newline>--tlscacert ''
              @ CaCertRemotePath (CentosProvisioner.AuthOptions p)
              @ ''\<newline>--tlscert '' @ ServerCertRemotePath (CentosProvisioner.AuthOptions p)
              @ ''\<newline>--tlskey '' @ ServerKeyRemotePath (CentosProvisioner.AuthOptions p)
              @ ''\<newline>''
              @ concat (map (\<lambda>x. ''--label '' @ x @ ''\<newline>'')
                  (Labels (CentosProvisioner.EngineOptions p)))"
  let ?after = "concat (map (\<lambda>x. ''--insecure-registry '' @ x @ ''\<newline>'')
                  (InsecureRegistry (CentosProvisioner.EngineOptions p)))
              @ concat (map (\<lambda>x. ''--registry-mirror '' @ x @ ''\<newline>'')
                  (RegistryMirror (CentosProvisioner.EngineOptions p)))
              @ concat (map (\<lambda>x. ''--'' @ x @ ''\<newline>'')
                  (ArbitraryFlags (CentosProvisioner.EngineOptions p)))
              @ ''\<newline>'\<newline>''"
  have "snd (GenerateDockerOptions dockerPort p)
          = Inr \<lparr> DockerOptions.EngineOptions = ?before @ ?line @ ?after,
                  EngineOptionsPath = ''/etc/sysconfig/docker'' \<rparr>"
    by (simp add: GenerateDockerOptions_renders)
  moreover have "sublist ?line (?before @ ?line @ ?after)"
    by (rule sublist_appendI)
  moreover have
    "Labels (CentosProvisioner.EngineOptions (fst (GenerateDockerOptions dockerPort p)))
       = Labels (CentosProvisioner.EngineOptions p) @ [''provider='' @ DriverName (Driver p)]"
    by (simp add: GenerateDockerOptions_renders)
  ultimately show ?thesis by simp
qed

text \<open>
  C5, as stated, fails for the label group: on the fresh provisioner of the driver
  \<open>packet\<close> the label list is empty and the rendered text has a \<^verbatim>\<open>--label\<close> line.
\<close>

theorem GenerateDockerOptions_label_line_for_empty_labels:
  "Labels (CentosProvisioner.EngineOptions example_provisioner) = []
   \<and> snd (GenerateDockerOptions 2376 example_provisioner)
     = Inr \<lparr> DockerOptions.EngineOptions =
               ''\<newline>OPTIONS='\<newline>-H tcp://0.0.0.0:2376\<newline>''
               @ ''-H unix:///var/run/docker.sock\<newline>--storage-driver \<newline>''
               @ ''--tlsverify\<newline>--tlscacert \<newline>--tlscert \<newline>--tlskey \<newline>''
               @ ''--label provider=packet\<newline>''
               @ ''\<newline>'\<newline>'',
             EngineOptionsPath = ''/etc/sysconfig/docker'' \<rparr>
   \<and> sublist ''--label ''
       (''\<newline>OPTIONS='\<newline>-H tcp://0.0.0.0:2376\<newline>''
        @ ''-H unix:///var/run/docker.sock\<newline>--storage-driver \<newline>''
        @ ''--tlsverify\<newline>--tlscacert \<newline>--tlscert \<newline>--tlskey \<newline>''
        @ ''--label provider=packet\<newline>''
        @ ''\<newline>'\<newline>'')"
proof (intro conjI)
  show "Labels (CentosProvisioner.EngineOptions example_provisioner) = []"
    by (simp add: example_provisioner_def NewCentosProvisioner_def)
  show "snd (GenerateDockerOptions 2376 example_provisioner)
     = Inr \<lparr> DockerOptions.EngineOptions =
               ''\<newline>OPTIONS='\<newline>-H tcp://0.0.0.0:2376\<newline>''
               @ ''-H unix:///var/run/docker.sock\<newline>--storage-driver \<newline>''
               @ ''--tlsverify\<newline>--tlscacert \<newline>--tlscert \<newline>--tlskey \<newline>''
               @ ''--label provider=packet\<newline>''
               @ ''\<newline>'\<newline>'',
             EngineOptionsPath = ''/etc/sysconfig/docker'' \<rparr>"
    by (simp add: GenerateDockerOptions_renders format_int_2376 example_provisioner_def
        example_driver_def NewCentosProvisioner_def)
  show "sublist ''--label ''
       (''\<newline>OPTIONS='\<newline>-H tcp://0.0.0.0:2376\<newline>''
        @ ''-H unix:///var/run/docker.sock\<newline>--storage-driver \<newline>''
        @ ''--tlsverify\<newline>--tlscacert \<newline>--tlscert \<newline>--tlskey \<newline>''
        @ ''--label provider=packet\<newline>''
        @ ''\<newline>'\<newline>'')"
  proof -
    have split_text:
      "''\<newline>OPTIONS='\<newline>-H tcp://0.0.0.0:2376\<newline>''
        @ ''-H unix:///var/run/docker.sock\<newline>--storage-driver \<newline>''
        @ ''--tlsverify\<newline>--tlscacert \<newline>--tlscert \<newline>--tlskey \<newline>''
        @ ''--label provider=packet\<newline>''
        @ ''\<newline>'\<newline>''
       = (''\<newline>OPTIONS='\<newline>-H tcp://0.0.0.0:2376\<newline>''
           @ ''-H unix:///var/run/docker.sock\<newline>--storage-driver \<newline>''
           @ ''--tlsverify\<newline>--tlscacert \<newline>--tlscert \<newline>--tlskey \<newline>'')
         @ ''--label '' @ (''provider=packet\<newline>'' @ ''\<newline>'\<newline>'')"
      by simp
    show ?thesis unfolding split_text by (rule sublist_appendI)
  qed
qed

text \<open>
  C5, amended. The text is the fixed lines followed by the four flag groups and the
  closing lines. The group of insecure registries, of registry mirrors and of arbitrary
  flags is one line for each element of its list, in the order of the list, and is empty
  for the empty list. The label group is one line for each label of the provisioner,
  in order, followed by the line of the provider label, so it is never empty.
\<close>

theorem GenerateDockerOptions_flag_groups:
  "snd (GenerateDockerOptions dockerPort p) =
     Inr \<lparr> DockerOptions.EngineOptions =
              ''\<newline>OPTIONS='\<newline>-H tcp://0.0.0.0:'' @ format_int dockerPort
              @ ''\<newline>-H unix:///var/run/docker.sock\<newline>--storage-driver ''
              @ StorageDriver (CentosProvisioner.EngineOptions p)
              @ ''\<newline>--tlsverify\<newline>--tlscacert ''
              @ CaCertRemotePath (CentosProvisioner.AuthOptions p)
              @ ''\<newline>--tlscert '' @ ServerCertRemotePath (CentosProvisioner.AuthOptions p)
              @ ''\<newline>--tlskey '' @ ServerKeyRemotePath (CentosProvisioner.AuthOptions p)
              @ ''\<newline>''
              @ concat (map (\<lambda>x. ''--label '' @ x @ ''\<newline>'')
                  (Labels (CentosProvisioner.EngineOptions p)))
              @ ''--label provider='' @ DriverName (Driver p) @ ''\<newline>''
              @ concat (map (\<lambda>x. ''--insecure-registry '' @ x @ ''\<newline>'')
                  (InsecureRegistry (CentosProvisioner.EngineOptions p)))
              @ concat (map (\<lambda>x. ''--registry-mirror '' @ x @ ''\<newline>'')
                  (RegistryMirror (CentosProvisioner.EngineOptions p)))
              @ concat (map (\<lambda>x. ''--'' @ x @ ''\<newline>'')
                  (ArbitraryFlags (CentosProvisioner.EngineOptions p)))
              @ ''\<newline>'\<newline>'',
            EngineOptionsPath = ''/etc/sysconfig/docker'' \<rparr>"
  by (simp add: GenerateDockerOptions_renders)

text \<open>
  C10. For every port and every provisioner, the options that \<open>GenerateDockerOptions\<close>
  returns carry the path \<^verbatim>\<open>/etc/sysconfig/docker\<close>, in both revisions, and
  \<open>GetDockerOptionsDir\<close> returns \<^verbatim>\<open>/etc/default/docker\<close>; the two differ.
\<close>

theorem GenerateDockerOptions_path_differs_from_options_dir:
  "(\<exists>cfg. snd (GenerateDockerOptions dockerPort p) = Inr cfg
       \<and> EngineOptionsPath cfg = ''/etc/sysconfig/docker''
       \<and> EngineOptionsPath cfg \<noteq> GetDockerOptionsDir p)
   \<and> (\<exists>cfg. GenerateDockerOptions_centos_go getDefaultDaemonOpts dockerPort authOptions p = Inr cfg
       \<and> EngineOptionsPath cfg = ''/etc/sysconfig/docker''
       \<and> EngineOptionsPath cfg \<noteq> GetDockerOptionsDir p)
   \<and> GetDockerOptionsDir p = ''/etc/default/docker''"
  by (simp add: GenerateDockerOptions_renders GenerateDockerOptions_centos_go_def
      GetDockerOptionsDir_def Let_def)

subsection \<open>Compatibility with the host\<close>

text \<open>
  C7. On a provisioner whose release information is set to \<open>info\<close>, \<open>CompatibleWithHost\<close>
  returns true exactly when the id of \<open>info\<close> is the string \<open>centos\<close>; the answer does
  not change with the version or the like field.
\<close>

theorem CompatibleWithHost_exact_id:
  "CompatibleWithHost (SetOsReleaseInfo (Some info) p) = Inr (OsRelease_Id info = ''centos'')
   \<and> CompatibleWithHost (SetOsReleaseInfo (Some (info\<lparr>Version := v, IdLike := l\<rparr>)) p)
       = CompatibleWithHost (SetOsReleaseInfo (Some info) p)"
  by (simp add: CompatibleWithHost_def SetOsReleaseInfo_def)

text \<open>
  C9. A provisioner fresh from \<open>NewCentosProvisioner\<close> has no release information and
  \<open>CompatibleWithHost\<close> panics on it; in general the call panics exactly when the
  release information is nil, so it returns once \<open>SetOsReleaseInfo\<close> has stored a
  non-nil value and panics again after a nil one is stored.
\<close>

theorem CompatibleWithHost_needs_release_info:
  "OsReleaseInfo (NewCentosProvisioner z d) = None
   \<and> CompatibleWithHost (NewCentosProvisioner z d) = Inl NilPointerDereference
   \<and> (CompatibleWithHost p = Inl NilPointerDereference) = (OsReleaseInfo p = None)
   \<and> (\<exists>b. CompatibleWithHost (SetOsReleaseInfo (Some info) p) = Inr b)
   \<and> CompatibleWithHost (SetOsReleaseInfo None p) = Inl NilPointerDereference"
  by (simp add: CompatibleWithHost_def SetOsReleaseInfo_def NewCentosProvisioner_def
      split: option.split)

end
